theory Spec2Isabelle
  imports Complex_Main "HOL-Library.Char_ord" "HOL-Library.List_Lexorder"
begin

section \<open>JavaScript values\<close>

text \<open>
  A JavaScript number is NaN, one of the two infinities, or a finite value. Only
  comparisons of numbers are used by the code below, and the comparison of two finite
  doubles is the comparison of the reals they denote.
\<close>

datatype jsnum = NaN | NegInfinity | Finite real | Infinity

text \<open>The operator \<open><\<close> of JavaScript on numbers: every comparison with NaN is false.\<close>

fun js_lt :: "jsnum \<Rightarrow> jsnum \<Rightarrow> bool" where
  "js_lt NaN _ = False"
| "js_lt _ NaN = False"
| "js_lt NegInfinity NegInfinity = False"
| "js_lt NegInfinity _ = True"
| "js_lt (Finite a) (Finite b) = (a < b)"
| "js_lt (Finite a) Infinity = True"
| "js_lt (Finite a) NegInfinity = False"
| "js_lt Infinity _ = False"

definition js_gt :: "jsnum \<Rightarrow> jsnum \<Rightarrow> bool" where
  "js_gt a b = js_lt b a"

fun isFinite :: "jsnum \<Rightarrow> bool" where
  "isFinite (Finite a) = True"
| "isFinite _ = False"

type_synonym segments = "string list"

text \<open>
  Values as the validators see them. \<open>Object c props\<close> is an ordinary object whose
  \<open>constructor.name\<close> is \<open>c\<close> (\<open>''Object''\<close> for an object literal) with its own
  enumerable properties in order; such an object may carry the name of a class of this
  library and still come from another copy of the package. The genuine instances of the
  library's classes (the ones \<open>instanceof\<close> accepts) have constructors of their own;
  a \<open>FieldPathV\<close> carries an object identity, since a \<open>Map\<close> compares keys by identity.
  \<open>Builtin c\<close> is an object whose \<open>Object.prototype.toString\<close> tag is not
  \<open>[object Object]\<close> and whose \<open>constructor.name\<close> is \<open>c\<close>: a Date, a Map, a
  RegExp, an Error, a Buffer or other Uint8Array, or an instance of a class that defines
  a tag of its own. An array is such an object too and has its own constructor here.
\<close>

datatype jsval =
    Undefined
  | Null
  | Boolean bool
  | Number jsnum
  | String string
  | Function
  | Array "jsval list"
  | Object string "(string \<times> jsval) list"
  | TimestampV int int
  | FieldPathV nat segments
  | DocumentReferenceV string
  | FieldValueV string
  | Builtin string

fun typeof :: "jsval \<Rightarrow> string" where
  "typeof Undefined = ''undefined''"
| "typeof (Boolean b) = ''boolean''"
| "typeof (Number n) = ''number''"
| "typeof (String s) = ''string''"
| "typeof Function = ''function''"
| "typeof _ = ''object''"

fun isArray :: "jsval \<Rightarrow> bool" where
  "isArray (Array xs) = True"
| "isArray _ = False"

text \<open>Truthiness of a JavaScript value.\<close>

fun truthy :: "jsval \<Rightarrow> bool" where
  "truthy Undefined = False"
| "truthy Null = False"
| "truthy (Boolean b) = b"
| "truthy (Number n) = (n \<noteq> NaN \<and> n \<noteq> Finite 0)"
| "truthy (String s) = (s \<noteq> [])"
| "truthy _ = True"

text \<open>
  \<open>val.constructor.name\<close>. The code reads it only from a value that is neither
  \<open>undefined\<close> nor \<open>null\<close> (where the read would raise a TypeError).
\<close>

fun constructorName :: "jsval \<Rightarrow> string" where
  "constructorName Undefined = []"
| "constructorName Null = []"
| "constructorName (Boolean b) = ''Boolean''"
| "constructorName (Number n) = ''Number''"
| "constructorName (String s) = ''String''"
| "constructorName Function = ''Function''"
| "constructorName (Array xs) = ''Array''"
| "constructorName (Object c props) = c"
| "constructorName (TimestampV s n) = ''Timestamp''"
| "constructorName (FieldPathV i p) = ''FieldPath''"
| "constructorName (DocumentReferenceV n) = ''DocumentReference''"
| "constructorName (FieldValueV c) = c"
| "constructorName (Builtin c) = c"

text \<open>
  The predicates of the npm package \<open>is\<close> that \<open>dev/src/validate.ts\<close> imports:
  \<open>is.object\<close> compares \<open>Object.prototype.toString.call(value)\<close> with
  \<open>[object Object]\<close>, which holds of object literals and of instances of ordinary
  classes and fails for arrays, for the built-in objects with a tag of their own (Date,
  Map, RegExp, Error, Buffer), for functions, \<open>null\<close>, \<open>undefined\<close> and
  primitives; \<open>is.nan\<close> holds of a number exactly when it differs from itself.
\<close>

fun is_object :: "jsval \<Rightarrow> bool" where
  "is_object (Object c props) = True"
| "is_object (TimestampV s n) = True"
| "is_object (FieldPathV i p) = True"
| "is_object (DocumentReferenceV n) = True"
| "is_object (FieldValueV c) = True"
| "is_object _ = False"

fun is_nan :: "jsnum \<Rightarrow> bool" where
  "is_nan NaN = True"
| "is_nan _ = False"

text \<open>The global \<open>isNaN\<close> that the second copy uses, on a value that is a number.\<close>

fun isNaN :: "jsnum \<Rightarrow> bool" where
  "isNaN NaN = True"
| "isNaN _ = False"

text \<open>
  Reading a property whose name is not a built-in member (\<open>fieldMask\<close>, \<open>exists\<close>,
  \<open>merge\<close>, ...): a TypeError on \<open>undefined\<close> and \<open>null\<close>, the stored value
  on an object that has it, \<open>undefined\<close> everywhere else.
\<close>

datatype argname = Named string | AtIndex nat

datatype message =
    DetectedMismatch argname string "segments option"
  | CouldntSerialize argname string "segments option"
  | NotPlainObject argname "segments option"
  | InvalidUseOfType argname string "segments option"

text \<open>
  Errors, one constructor for each message template of the source, with the
  interpolated values as arguments. \<open>ArgError arg t d\<close> is
  \<open>createErrorDescription(arg, t)\<close> followed by the detail \<open>d\<close>, written without
  the quotation marks around property names; \<open>NotValidError arg t p err\<close> is the
  description followed by the text that property \<open>p\<close> is not valid and the message of
  \<open>err\<close>; \<open>UsageError err\<close> is the usage text of \<open>update\<close> followed by the
  message of \<open>err\<close>.
\<close>

datatype error =
    ArgError argname string string
  | RangeError argname jsnum jsnum jsnum
  | CustomObjectError message
  | PlainError string
  | SpecifiedMultipleTimes argname segments
  | UsageError error
  | NotValidError argname string string error
  | MinArguments string nat
  | MaxArguments string nat
  | TypeError
  | AssertionError
  | ExternalError string

fun getProp :: "jsval \<Rightarrow> string \<Rightarrow> error + jsval" where
  "getProp Undefined k = Inl TypeError"
| "getProp Null k = Inl TypeError"
| "getProp (Object c props) k =
     (case map_of props k of None \<Rightarrow> Inr Undefined | Some v \<Rightarrow> Inr v)"
| "getProp _ k = Inr Undefined"

section \<open>The validation layer: \<open>dev/src/validate.ts\<close> and its second copy\<close>

text \<open>
  The options object of a validator: the argument itself may be missing
  (\<open>None\<close>), and so may each of its properties.
\<close>

record options =
  optional :: "bool option"
  minValue :: "jsnum option"
  maxValue :: "jsnum option"

definition isOptional :: "jsval \<Rightarrow> options option \<Rightarrow> bool" where
  "isOptional v opts =
     (v = Undefined \<and> opts \<noteq> None \<and> optional (the opts) = Some True)"

text \<open>\<open>validateNumber\<close> of \<open>dev/src/validate.ts\<close>; \<open>None\<close> is a normal return.\<close>

definition validateNumber :: "argname \<Rightarrow> jsval \<Rightarrow> options option \<Rightarrow> error option" where
  "validateNumber arg v opts =
     (let mn = (if opts \<noteq> None \<and> minValue (the opts) \<noteq> None
                then the (minValue (the opts)) else NegInfinity);
          mx = (if opts \<noteq> None \<and> maxValue (the opts) \<noteq> None
                then the (maxValue (the opts)) else NegInfinity)
      in if \<not> isOptional v opts then
           (case v of
              Number x \<Rightarrow>
                if is_nan x then Some (ArgError arg ''number'' [])
                else if js_lt x mn \<or> js_gt x mx then Some (RangeError arg mn mx x)
                else None
            | _ \<Rightarrow> Some (ArgError arg ''number'' []))
         else None)"

text \<open>\<open>validateNumber\<close> of the second copy (\<open>unnamed/part_000\<close>).\<close>

definition validateNumber_part000 ::
  "argname \<Rightarrow> jsval \<Rightarrow> options option \<Rightarrow> error option" where
  "validateNumber_part000 arg v opts =
     (let mn = (if opts \<noteq> None \<and> minValue (the opts) \<noteq> None
                then the (minValue (the opts)) else NegInfinity);
          mx = (if opts \<noteq> None \<and> maxValue (the opts) \<noteq> None
                then the (maxValue (the opts)) else NegInfinity)
      in if \<not> isOptional v opts then
           (case v of
              Number x \<Rightarrow>
                if isNaN x then Some (ArgError arg ''number'' [])
                else if js_lt x mn \<or> js_gt x mx then Some (RangeError arg mn mx x)
                else None
            | _ \<Rightarrow> Some (ArgError arg ''number'' []))
         else None)"

text \<open>\<open>validateObject\<close> of \<open>dev/src/validate.ts\<close>.\<close>

definition validateObject :: "argname \<Rightarrow> jsval \<Rightarrow> options option \<Rightarrow> error option" where
  "validateObject arg v opts =
     (if \<not> isOptional v opts then
        (if \<not> is_object v then Some (ArgError arg ''object'' []) else None)
      else None)"

text \<open>
  \<open>validateObject\<close> of the second copy: the test is
  \<open>typeof value !== 'object' && value === null\<close>.
\<close>

definition validateObject_part000 ::
  "argname \<Rightarrow> jsval \<Rightarrow> options option \<Rightarrow> error option" where
  "validateObject_part000 arg v opts =
     (if \<not> isOptional v opts then
        (if typeof v \<noteq> ''object'' \<and> v = Null then Some (ArgError arg ''object'' [])
         else None)
      else None)"

definition domainTypeNames :: "string list" where
  "domainTypeNames =
     [''DocumentReference'', ''FieldPath'', ''FieldValue'', ''GeoPoint'', ''Timestamp'']"

text \<open>\<open>customObjectMessage\<close> of \<open>dev/src/validate.ts\<close>.\<close>

definition customObjectMessage :: "argname \<Rightarrow> jsval \<Rightarrow> segments option \<Rightarrow> message" where
  "customObjectMessage argumentName v path =
     (if is_object v \<and> constructorName v \<noteq> ''Object'' then
        (let typeName = constructorName v
         in if typeName \<in> set domainTypeNames
            then DetectedMismatch argumentName typeName path
            else CouldntSerialize argumentName typeName path)
      else if \<not> is_object v then NotPlainObject argumentName path
      else InvalidUseOfType argumentName (typeof v) path)"

text \<open>\<open>customObjectMessage\<close> of the second copy.\<close>

definition customObjectMessage_part000 ::
  "argname \<Rightarrow> jsval \<Rightarrow> segments option \<Rightarrow> message" where
  "customObjectMessage_part000 argumentName v path =
     (if typeof v = ''object'' \<and> v \<noteq> Null then
        (let typeName = constructorName v
         in if typeName \<in> set domainTypeNames
            then DetectedMismatch argumentName typeName path
            else CouldntSerialize argumentName typeName path)
      else InvalidUseOfType argumentName (typeof v) path)"

text \<open>
  The three message classes of the specification: a recognised domain type from another
  copy of the library, an object with a custom prototype, and an input that is not an
  object. Each copy has one template for the last class.
\<close>

datatype message_class = DomainTypeMismatch | CustomPrototype | NonObjectInput

fun classOf :: "message \<Rightarrow> message_class" where
  "classOf (DetectedMismatch a t p) = DomainTypeMismatch"
| "classOf (CouldntSerialize a t p) = CustomPrototype"
| "classOf (NotPlainObject a p) = NonObjectInput"
| "classOf (InvalidUseOfType a t p) = NonObjectInput"


section \<open>Collaborators outside the source\<close>

text \<open>
  The modules \<open>path.ts\<close>, \<open>reference.ts\<close>, \<open>serializer.ts\<close> and \<open>document.ts\<close>
  are missing from the source. Their validators and the builders of the document value
  model are parameters of the model: each may raise, none has access to a batch. The
  small value objects they exchange with \<open>write-batch.ts\<close> are described by the
  specification and modelled after it below.
\<close>

record userInputOptions =
  allowEmpty :: bool
  allowDeletes :: string
  allowTransforms :: bool

text \<open>
  Modelled from the spec: the classes \<open>DocumentSnapshot\<close>, \<open>DocumentMask\<close> and
  \<open>DocumentTransform\<close> of \<open>document.ts\<close> are missing. A snapshot is the sequence of
  (path, value) assignments that survive sentinel filtering, a mask is the set of touched
  paths, a transform is the list of (path, kind) pairs taken from sentinel values; each is
  empty iff it has no entry.
\<close>

record DocumentSnapshot =
  ds_ref :: string
  ds_fields :: "(segments \<times> jsval) list"

type_synonym DocumentMask = "segments list"

record DocumentTransform =
  dt_ref :: string
  dt_transforms :: "(segments \<times> string) list"

text \<open>
  A \<open>Map<FieldPath, unknown>\<close> in insertion order. Its keys are FieldPath objects
  compared by identity: a FieldPath that the caller passed in keeps its identity, one
  created by \<open>FieldPath.fromArgument\<close> from a string at argument position \<open>i\<close> is
  fresh.
\<close>

datatype fpid = Given nat | Fresh nat

type_synonym updateMap = "((fpid \<times> segments) \<times> jsval) list"

fun mapSet :: "updateMap \<Rightarrow> (fpid \<times> segments) \<Rightarrow> jsval \<Rightarrow> updateMap" where
  "mapSet [] k v = [(k, v)]"
| "mapSet ((k', v') # m) k v =
     (if fst k' = fst k then (k', v) # m else (k', v') # mapSet m k v)"

record ext =
  validateDocumentReference :: "argname \<Rightarrow> jsval \<Rightarrow> error option"
  isPlainObject :: "jsval \<Rightarrow> bool"
  validateUserInput ::
    "argname \<Rightarrow> jsval \<Rightarrow> string \<Rightarrow> userInputOptions \<Rightarrow> segments \<Rightarrow> error option"
  validateFieldPath :: "argname \<Rightarrow> jsval \<Rightarrow> error option"
  validateFieldValue :: "argname \<Rightarrow> jsval \<Rightarrow> segments \<Rightarrow> error option"
  fromArgument :: "jsval \<Rightarrow> error + segments"
  snapshotFromObject :: "jsval \<Rightarrow> jsval \<Rightarrow> error + DocumentSnapshot"
  snapshotFromUpdateMap :: "jsval \<Rightarrow> updateMap \<Rightarrow> error + DocumentSnapshot"
  transformFromObject :: "jsval \<Rightarrow> jsval \<Rightarrow> error + DocumentTransform"
  transformFromUpdateMap :: "jsval \<Rightarrow> updateMap \<Rightarrow> error + DocumentTransform"
  transformValidate :: "DocumentTransform \<Rightarrow> error option"
  maskFromFieldMask :: "jsval list \<Rightarrow> error + DocumentMask"
  maskApplyTo :: "DocumentMask \<Rightarrow> jsval \<Rightarrow> error + jsval"
  maskRemoveFields :: "DocumentMask \<Rightarrow> segments list \<Rightarrow> DocumentMask"
  maskFromObject :: "jsval \<Rightarrow> error + DocumentMask"
  maskFromUpdateMap :: "updateMap \<Rightarrow> error + DocumentMask"

text \<open>Sequencing: a call that may raise, followed by the rest of the function body.\<close>

definition check :: "error option \<Rightarrow> (error + 'a) \<Rightarrow> error + 'a" where
  "check r k = (case r of Some e \<Rightarrow> Inl e | None \<Rightarrow> k)"

definition bindE :: "error + 'a \<Rightarrow> ('a \<Rightarrow> error + 'b) \<Rightarrow> error + 'b" where
  "bindE m f = (case m of Inl e \<Rightarrow> Inl e | Inr x \<Rightarrow> f x)"

text \<open>A loop whose body may raise: the first error ends it.\<close>

fun forEachE :: "('a \<Rightarrow> error option) \<Rightarrow> 'a list \<Rightarrow> error option" where
  "forEachE f [] = None"
| "forEachE f (x # xs) = (case f x of Some e \<Rightarrow> Some e | None \<Rightarrow> forEachE f xs)"

fun mapE :: "('a \<Rightarrow> error + 'b) \<Rightarrow> 'a list \<Rightarrow> error + 'b list" where
  "mapE f [] = Inr []"
| "mapE f (x # xs) =
     (case f x of Inl e \<Rightarrow> Inl e
      | Inr y \<Rightarrow> (case mapE f xs of Inl e \<Rightarrow> Inl e | Inr ys \<Rightarrow> Inr (y # ys)))"

text \<open>A property read on a value already known to be neither \<open>undefined\<close> nor \<open>null\<close>.\<close>

definition propOf :: "jsval \<Rightarrow> string \<Rightarrow> jsval" where
  "propOf v k = (case getProp v k of Inl e \<Rightarrow> Undefined | Inr x \<Rightarrow> x)"

fun ownProps :: "jsval \<Rightarrow> (string \<times> jsval) list" where
  "ownProps (Object c props) = props"
| "ownProps _ = []"

fun elements :: "jsval \<Rightarrow> jsval list" where
  "elements (Array xs) = xs"
| "elements _ = []"

text \<open>\<open>args[i]\<close>: \<open>undefined\<close> beyond the end.\<close>

definition nthArg :: "jsval list \<Rightarrow> nat \<Rightarrow> jsval" where
  "nthArg args i = (if i < length args then args ! i else Undefined)"

section \<open>\<open>unnamed/part_001\<close>: read options and the arguments of getAll\<close>

text \<open>
  \<open>validateReadOptions\<close>. The test \<open>typeof val !== 'object' && val === null\<close>
  guards the first error; the statement \<open>if (options.fieldMask === undefined) {}\<close> has
  an empty body and does nothing, so the test for an array follows in every case.
\<close>

definition validateReadOptions :: "ext \<Rightarrow> argname \<Rightarrow> jsval \<Rightarrow> error option" where
  "validateReadOptions E arg v =
     (if v \<noteq> Undefined then
        (if typeof v \<noteq> ''object'' \<and> v = Null
         then Some (ArgError arg ''read option'' ''Input is not an object.'')
         else
           (case getProp v ''fieldMask'' of
              Inl e \<Rightarrow> Some e
            | Inr fieldMask \<Rightarrow>
                if \<not> isArray fieldMask
                then Some (ArgError arg ''read option'' ''fieldMask is not an array.'')
                else forEachE
                       (\<lambda>(i, x). case validateFieldPath E (AtIndex i) x of
                                    Some err \<Rightarrow>
                                      Some (NotValidError arg ''read option'' ''fieldMask'' err)
                                  | None \<Rightarrow> None)
                       (zip [0..<length (elements fieldMask)] (elements fieldMask))))
      else None)"

record getAllArguments =
  ga_fieldMask :: "segments list option"
  ga_documents :: "jsval list"

definition parseGetAllArguments :: "ext \<Rightarrow> jsval list \<Rightarrow> error + getAllArguments" where
  "parseGetAllArguments E documentRefsOrReadOptions =
     (let usesDeprecatedArgumentStyle = isArray (nthArg documentRefsOrReadOptions 0);
          (documents, readOptions) =
            (if usesDeprecatedArgumentStyle
             then (elements (nthArg documentRefsOrReadOptions 0),
                   nthArg documentRefsOrReadOptions 1)
             else if length documentRefsOrReadOptions > 0 \<and>
                     isPlainObject E (last documentRefsOrReadOptions)
             then (butlast documentRefsOrReadOptions, last documentRefsOrReadOptions)
             else (documentRefsOrReadOptions, Undefined))
      in check (forEachE (\<lambda>(i, d). validateDocumentReference E (AtIndex i) d)
                  (zip [0..<length documents] documents))
        (check (validateReadOptions E (Named ''options'') readOptions)
          (if truthy readOptions \<and> truthy (propOf readOptions ''fieldMask'')
           then bindE (mapE (fromArgument E) (elements (propOf readOptions ''fieldMask'')))
                  (\<lambda>fm. Inr \<lparr>ga_fieldMask = Some fm, ga_documents = documents\<rparr>)
           else Inr \<lparr>ga_fieldMask = None, ga_documents = documents\<rparr>)))"


section \<open>Field paths\<close>

text \<open>
  Modelled from the spec: \<open>path.ts\<close> is missing. A FieldPath is its sequence of
  segments; \<open>compareTo\<close> is the lexicographic total order over segments, negative, zero
  or positive; \<open>isPrefixOf\<close> holds iff the segments of the receiver are a leading
  subsequence of the other's, strict or not. Segments compare as strings.
\<close>

fun compareTo :: "segments \<Rightarrow> segments \<Rightarrow> int" where
  "compareTo [] [] = 0"
| "compareTo [] (y # ys) = - 1"
| "compareTo (x # xs) [] = 1"
| "compareTo (x # xs) (y # ys) =
     (if x < y then - 1 else if y < x then 1 else compareTo xs ys)"

fun isPrefixOf :: "segments \<Rightarrow> segments \<Rightarrow> bool" where
  "isPrefixOf [] q = True"
| "isPrefixOf (x # xs) [] = False"
| "isPrefixOf (x # xs) (y # ys) = (x = y \<and> isPrefixOf xs ys)"

text \<open>
  \<open>fields.sort((left, right) => left.compareTo(right))\<close>: the elements in
  nondecreasing order of the comparator. Two paths compare equal only when they have the
  same segments, so every sorting algorithm yields the same sequence of segment lists.
\<close>

fun insertField :: "segments \<Rightarrow> segments list \<Rightarrow> segments list" where
  "insertField x [] = [x]"
| "insertField x (y # ys) =
     (if compareTo x y \<le> 0 then x # y # ys else y # insertField x ys)"

definition sortFields :: "segments list \<Rightarrow> segments list" where
  "sortFields fs = foldr insertField fs []"

section \<open>\<open>dev/src/write-batch.ts\<close>\<close>

definition GCF_IDLE_TIMEOUT_MS :: int where
  "GCF_IDLE_TIMEOUT_MS = 110 * 1000"

text \<open>
  Modelled from the spec: \<open>timestamp.ts\<close> is missing. \<open>Timestamp.fromProto\<close> turns a
  wire timestamp into a Timestamp of the same seconds and nanoseconds.
\<close>

record ITimestamp =
  seconds :: int
  nanos :: int

datatype Timestamp = Timestamp int int

definition fromProto :: "ITimestamp \<Rightarrow> Timestamp" where
  "fromProto t = Timestamp (seconds t) (nanos t)"

datatype WriteResult = WriteResult Timestamp

datatype IPrecondition = ExistsP bool | UpdateTimeP int int

text \<open>
  Modelled from the spec: the class \<open>Precondition\<close> of \<open>document.ts\<close> is missing. It
  holds an optional \<open>exists\<close> and an optional last update time, taken from the options
  object it is built from; its wire form is absent when no condition is set.
\<close>

datatype Precondition = Precondition "bool option" "(int \<times> int) option"

definition newPrecondition :: "jsval \<Rightarrow> Precondition" where
  "newPrecondition options =
     Precondition
       (case propOf options ''exists'' of Boolean b \<Rightarrow> Some b | _ \<Rightarrow> None)
       (case propOf options ''lastUpdateTime'' of TimestampV s n \<Rightarrow> Some (s, n) | _ \<Rightarrow> None)"

fun preconditionToProto :: "Precondition \<Rightarrow> IPrecondition option" where
  "preconditionToProto (Precondition e (Some (s, n))) = Some (UpdateTimeP s n)"
| "preconditionToProto (Precondition (Some b) None) = Some (ExistsP b)"
| "preconditionToProto (Precondition None None) = None"

text \<open>One entry of the wire list (\<open>api.IWrite\<close>).\<close>

record IWrite =
  w_update :: "DocumentSnapshot option"
  w_delete :: "string option"
  w_updateMask :: "DocumentMask option"
  w_transform :: "DocumentTransform option"
  w_currentDocument :: "IPrecondition option"

definition emptyWrite :: IWrite where
  "emptyWrite = \<lparr>w_update = None, w_delete = None, w_updateMask = None,
                 w_transform = None, w_currentDocument = None\<rparr>"

text \<open>
  Modelled from the spec: \<open>isEmpty\<close> and \<open>toProto\<close> of the three value objects. A
  snapshot always has a wire form; a transform is serialised only when its list is
  non-empty.
\<close>

definition snapshotIsEmpty :: "DocumentSnapshot \<Rightarrow> bool" where
  "snapshotIsEmpty d = (ds_fields d = [])"

definition maskIsEmpty :: "DocumentMask \<Rightarrow> bool" where
  "maskIsEmpty m = (m = [])"

definition transformIsEmpty :: "DocumentTransform \<Rightarrow> bool" where
  "transformIsEmpty t = (dt_transforms t = [])"

definition snapshotToProto :: "DocumentSnapshot \<Rightarrow> IWrite" where
  "snapshotToProto d = emptyWrite\<lparr>w_update := Some d\<rparr>"

definition transformToProto :: "DocumentTransform \<Rightarrow> IWrite option" where
  "transformToProto t =
     (if transformIsEmpty t then None else Some (emptyWrite\<lparr>w_transform := Some t\<rparr>))"

text \<open>
  Modelled from the spec: \<open>reference.ts\<close> is missing. \<open>formattedName\<close> is the
  name of the document a reference points to; the code reads it after the reference has
  been validated.
\<close>

fun formattedName :: "jsval \<Rightarrow> string" where
  "formattedName (DocumentReferenceV n) = n"
| "formattedName _ = []"

record WriteOp =
  op_write :: "IWrite option"
  op_transform :: "IWrite option"
  op_precondition :: "IPrecondition option"

record WriteBatch =
  writes :: "WriteOp list"
  committed :: bool

definition isEmpty :: "WriteBatch \<Rightarrow> bool" where
  "isEmpty b = (length (writes b) = 0)"

definition verifyNotCommitted :: "WriteBatch \<Rightarrow> error option" where
  "verifyNotCommitted b =
     (if committed b
      then Some (PlainError ''Cannot modify a WriteBatch that has been committed.'')
      else None)"

fun isTimestamp :: "jsval \<Rightarrow> bool" where
  "isTimestamp (TimestampV s n) = True"
| "isTimestamp _ = False"

fun isFieldPath :: "jsval \<Rightarrow> bool" where
  "isFieldPath (FieldPathV i p) = True"
| "isFieldPath _ = False"

definition validateMinNumberOfArguments :: "string \<Rightarrow> nat \<Rightarrow> nat \<Rightarrow> error option" where
  "validateMinNumberOfArguments funcName argsLength minSize =
     (if argsLength < minSize then Some (MinArguments funcName minSize) else None)"

definition validateMaxNumberOfArguments :: "string \<Rightarrow> nat \<Rightarrow> nat \<Rightarrow> error option" where
  "validateMaxNumberOfArguments funcName argsLength maxSize =
     (if argsLength > maxSize then Some (MaxArguments funcName maxSize) else None)"

definition validatePrecondition :: "argname \<Rightarrow> jsval \<Rightarrow> bool \<Rightarrow> error option" where
  "validatePrecondition arg val allowExist =
     (if typeof val \<noteq> ''object'' \<or> val = Null
      then Some (PlainError ''Input is not an object.'')
      else
        (let ex = propOf val ''exists'';
             lastUpdateTime = propOf val ''lastUpdateTime'';
             conditions = (if ex \<noteq> Undefined then 1 else 0) +
                          (if lastUpdateTime \<noteq> Undefined then 1 else (0::nat))
         in if ex \<noteq> Undefined \<and> \<not> allowExist
            then Some (ArgError arg ''precondition'' ''exists is not an allowed condition.'')
            else if ex \<noteq> Undefined \<and> typeof ex \<noteq> ''boolean''
            then Some (ArgError arg ''precondition'' ''exists is not a boolean.'')
            else if lastUpdateTime \<noteq> Undefined \<and> \<not> isTimestamp lastUpdateTime
            then Some (ArgError arg ''precondition''
                         ''lastUpdateTime is not a Firestore Timestamp.'')
            else if conditions > 1
            then Some (ArgError arg ''precondition''
                         ''Input contains more than one condition.'')
            else None))"

definition validateUpdatePrecondition :: "argname \<Rightarrow> jsval \<Rightarrow> error option" where
  "validateUpdatePrecondition arg precondition =
     (if precondition \<noteq> Undefined then validatePrecondition arg precondition False
      else None)"

definition validateDeletePrecondition :: "argname \<Rightarrow> jsval \<Rightarrow> error option" where
  "validateDeletePrecondition arg precondition =
     (if precondition \<noteq> Undefined then validatePrecondition arg precondition True
      else None)"

definition validateSetOptions :: "ext \<Rightarrow> argname \<Rightarrow> jsval \<Rightarrow> error option" where
  "validateSetOptions E arg val =
     (if val = Undefined then None
      else if typeof val \<noteq> ''object'' \<or> val = Null
      then Some (ArgError arg ''set() option'' ''Input is not an object.'')
      else
        (let merge = propOf val ''merge''; mergeFields = propOf val ''mergeFields''
         in if merge \<noteq> Undefined \<and> typeof merge \<noteq> ''boolean''
            then Some (ArgError arg ''set() option'' ''merge is not a boolean.'')
            else
              (case (if mergeFields \<noteq> Undefined then
                       (if \<not> isArray mergeFields
                        then Some (ArgError arg ''set() option''
                                     ''mergeFields is not an array.'')
                        else forEachE
                               (\<lambda>(i, x). case validateFieldPath E (AtIndex i) x of
                                            Some err \<Rightarrow>
                                              Some (NotValidError arg ''set() option''
                                                      ''mergeFields'' err)
                                          | None \<Rightarrow> None)
                               (zip [0..<length (elements mergeFields)]
                                    (elements mergeFields)))
                     else None) of
                 Some e \<Rightarrow> Some e
               | None \<Rightarrow>
                   if merge \<noteq> Undefined \<and> mergeFields \<noteq> Undefined
                   then Some (ArgError arg ''set() option''
                                ''You cannot specify both merge and mergeFields.'')
                   else None)))"

definition validateDocumentData :: "ext \<Rightarrow> argname \<Rightarrow> jsval \<Rightarrow> bool \<Rightarrow> error option" where
  "validateDocumentData E arg obj allowDeletesFlag =
     (if \<not> isPlainObject E obj
      then Some (CustomObjectError (customObjectMessage arg obj None))
      else forEachE
             (\<lambda>(p, v). validateUserInput E arg v ''Firestore document''
                          \<lparr>allowEmpty = True,
                           allowDeletes = (if allowDeletesFlag then ''all'' else ''none''),
                           allowTransforms = True\<rparr> [p])
             (ownProps obj))"

definition validateUpdateMap :: "ext \<Rightarrow> argname \<Rightarrow> jsval \<Rightarrow> error option" where
  "validateUpdateMap E arg obj =
     (if \<not> isPlainObject E obj
      then Some (CustomObjectError (customObjectMessage arg obj None))
      else
        (case forEachE
                (\<lambda>(p, v). validateUserInput E arg v ''Firestore document''
                             \<lparr>allowEmpty = False, allowDeletes = ''root'',
                              allowTransforms = True\<rparr> [p])
                (ownProps obj) of
           Some e \<Rightarrow> Some e
         | None \<Rightarrow>
             if ownProps obj = [] then Some (PlainError ''At least one field must be updated.'')
             else None))"

fun scanAdjacent :: "argname \<Rightarrow> segments list \<Rightarrow> error option" where
  "scanAdjacent arg (x # y # rest) =
     (if isPrefixOf x y then Some (SpecifiedMultipleTimes arg x)
      else scanAdjacent arg (y # rest))"
| "scanAdjacent arg fs = None"

definition validateUpdate :: "argname \<Rightarrow> updateMap \<Rightarrow> error option" where
  "validateUpdate arg data =
     (let fields = map (\<lambda>(key, v). snd key) data
      in scanAdjacent arg (sortFields fields))"


subsection \<open>The append operations\<close>

text \<open>
  Each public method runs its validation and builds one \<open>WriteOp\<close>; the only statement
  that touches the batch is the final \<open>this._writes.push\<close>. The functions \<open>*_op\<close> are
  the method bodies up to the evaluated argument of \<open>push\<close>; the methods themselves
  return the error raised, if any, and the batch afterwards. The method \<open>set\<close> is
  \<open>set'\<close> here, and \<open>update\<close> takes its \<open>arguments\<close> as one list.
\<close>

definition push :: "WriteBatch \<Rightarrow> WriteOp \<Rightarrow> WriteBatch" where
  "push b w = b\<lparr>writes := writes b @ [w]\<rparr>"

definition finish :: "WriteBatch \<Rightarrow> error + WriteOp \<Rightarrow> error option \<times> WriteBatch" where
  "finish b r = (case r of Inl e \<Rightarrow> (Some e, b) | Inr w \<Rightarrow> (None, push b w))"

definition create_op :: "ext \<Rightarrow> WriteBatch \<Rightarrow> jsval \<Rightarrow> jsval \<Rightarrow> error + WriteOp" where
  "create_op E b documentRef data =
     check (validateDocumentReference E (Named ''documentRef'') documentRef)
    (check (validateDocumentData E (Named ''data'') data False)
    (check (verifyNotCommitted b)
    (bindE (snapshotFromObject E documentRef data) (\<lambda>document.
     let precondition = newPrecondition (Object ''Object'' [(''exists'', Boolean False)])
     in bindE (transformFromObject E documentRef data) (\<lambda>transform.
        check (transformValidate E transform)
       (Inr \<lparr>op_write =
               (if \<not> snapshotIsEmpty document \<or> transformIsEmpty transform
                then Some (snapshotToProto document) else None),
             op_transform = transformToProto transform,
             op_precondition = preconditionToProto precondition\<rparr>))))))"

definition create :: "ext \<Rightarrow> WriteBatch \<Rightarrow> jsval \<Rightarrow> jsval \<Rightarrow> error option \<times> WriteBatch" where
  "create E b documentRef data = finish b (create_op E b documentRef data)"

definition delete_op :: "ext \<Rightarrow> WriteBatch \<Rightarrow> jsval \<Rightarrow> jsval \<Rightarrow> error + WriteOp" where
  "delete_op E b documentRef precondition =
     check (validateDocumentReference E (Named ''documentRef'') documentRef)
    (check (validateDeletePrecondition (Named ''precondition'') precondition)
    (check (verifyNotCommitted b)
    (let conditions = newPrecondition precondition
     in Inr \<lparr>op_write = Some (emptyWrite\<lparr>w_delete := Some (formattedName documentRef)\<rparr>),
             op_transform = None,
             op_precondition = preconditionToProto conditions\<rparr>)))"

definition delete :: "ext \<Rightarrow> WriteBatch \<Rightarrow> jsval \<Rightarrow> jsval \<Rightarrow> error option \<times> WriteBatch" where
  "delete E b documentRef precondition = finish b (delete_op E b documentRef precondition)"

definition set_op :: "ext \<Rightarrow> WriteBatch \<Rightarrow> jsval \<Rightarrow> jsval \<Rightarrow> jsval \<Rightarrow> error + WriteOp" where
  "set_op E b documentRef data options =
     check (validateSetOptions E (Named ''options'') options)
    (let mergeLeaves = (truthy options \<and> propOf options ''merge'' = Boolean True);
         mergePaths = (truthy options \<and> truthy (propOf options ''mergeFields''))
     in check (validateDocumentReference E (Named ''documentRef'') documentRef)
       (check (validateDocumentData E (Named ''data'') data (mergePaths \<or> mergeLeaves))
       (check (verifyNotCommitted b)
       (bindE (if mergePaths
               then bindE (maskFromFieldMask E (elements (propOf options ''mergeFields'')))
                      (\<lambda>m. bindE (maskApplyTo E m data) (\<lambda>d. Inr (Some m, d)))
               else Inr (None, data))
          (\<lambda>(fieldMask, data').
        bindE (transformFromObject E documentRef data') (\<lambda>transform.
        check (transformValidate E transform)
       (bindE (snapshotFromObject E documentRef data') (\<lambda>document.
        bindE (case fieldMask of
                 Some m \<Rightarrow> Inr (maskRemoveFields E m (map fst (dt_transforms transform)))
               | None \<Rightarrow> maskFromObject E data')
          (\<lambda>documentMask.
        let hasDocumentData = (\<not> snapshotIsEmpty document \<or> \<not> maskIsEmpty documentMask);
            write =
              (if \<not> mergePaths \<and> \<not> mergeLeaves then Some (snapshotToProto document)
               else if hasDocumentData \<or> transformIsEmpty transform
               then Some ((snapshotToProto document)\<lparr>w_updateMask := Some documentMask\<rparr>)
               else None)
        in Inr \<lparr>op_write = write,
                op_transform = transformToProto transform,
                op_precondition = None\<rparr>)))))))))"

definition set' ::
  "ext \<Rightarrow> WriteBatch \<Rightarrow> jsval \<Rightarrow> jsval \<Rightarrow> jsval \<Rightarrow> error option \<times> WriteBatch" where
  "set' E b documentRef data options = finish b (set_op E b documentRef data options)"

text \<open>
  The key under which \<open>updateMap.set(FieldPath.fromArgument(x), v)\<close> stores: the
  object passed in when \<open>x\<close> is a FieldPath, a new object otherwise.
\<close>

definition fieldPathKey :: "ext \<Rightarrow> nat \<Rightarrow> jsval \<Rightarrow> error + (fpid \<times> segments)" where
  "fieldPathKey E i x =
     bindE (fromArgument E x)
       (\<lambda>s. Inr ((case x of FieldPathV oid p \<Rightarrow> Given oid | _ \<Rightarrow> Fresh i), s))"

text \<open>
  The loop \<open>for (let i = 1; i < arguments.length; i += 2)\<close> of the varargs form, on
  the arguments from position \<open>i\<close> on: a single remaining argument is the one at
  \<open>arguments.length - 1\<close>, the precondition.
\<close>

fun varargsLoop ::
  "ext \<Rightarrow> nat \<Rightarrow> nat \<Rightarrow> jsval list \<Rightarrow> updateMap \<times> Precondition
     \<Rightarrow> error + (updateMap \<times> Precondition)" where
  "varargsLoop E n i [] st = Inr st"
| "varargsLoop E n i [p] (m, pc) =
     check (validateUpdatePrecondition (AtIndex i) p) (Inr (m, newPrecondition p))"
| "varargsLoop E n i (f # v # rest) (m, pc) =
     check (validateFieldPath E (AtIndex i) f)
    (check (validateMinNumberOfArguments ''update'' n (i + 1))
    (bindE (fieldPathKey E i f) (\<lambda>fieldPath.
     check (validateFieldValue E (AtIndex i) v (snd fieldPath))
    (varargsLoop E n (i + 2) rest (mapSet m fieldPath v, pc)))))"

text \<open>\<open>Object.keys(dataOrField).forEach\<close> of the other form.\<close>

fun keysLoop :: "ext \<Rightarrow> nat \<Rightarrow> (string \<times> jsval) list \<Rightarrow> updateMap \<Rightarrow> error + updateMap" where
  "keysLoop E i [] m = Inr m"
| "keysLoop E i ((key, v) # rest) m =
     check (validateFieldPath E (Named key) (String key))
    (bindE (fieldPathKey E i (String key)) (\<lambda>fieldPath.
     keysLoop E (i + 1) rest (mapSet m fieldPath v)))"

text \<open>The \<open>catch\<close> blocks of \<open>update\<close>: the error is raised again behind a usage text.\<close>

definition rethrow :: "error + 'a \<Rightarrow> error + 'a" where
  "rethrow r = (case r of Inl err \<Rightarrow> Inl (UsageError err) | Inr x \<Rightarrow> Inr x)"

definition update_op :: "ext \<Rightarrow> WriteBatch \<Rightarrow> jsval list \<Rightarrow> error + WriteOp" where
  "update_op E b args =
     check (validateMinNumberOfArguments ''update'' (length args) 2)
    (let documentRef = nthArg args 0;
         dataOrField = nthArg args 1;
         preconditionOrValues = drop 2 args
     in check (validateDocumentReference E (Named ''documentRef'') documentRef)
       (check (verifyNotCommitted b)
       (let precondition0 = newPrecondition (Object ''Object'' [(''exists'', Boolean True)]);
            usesVarargs = (typeof dataOrField = ''string'' \<or> isFieldPath dataOrField)
        in bindE
             (if usesVarargs
              then rethrow (varargsLoop E (length args) 1 (drop 1 args) ([], precondition0))
              else rethrow
                (check (validateUpdateMap E (Named ''dataOrField'') dataOrField)
                (check (validateMaxNumberOfArguments ''update'' (length args) 3)
                (bindE (keysLoop E 0 (ownProps dataOrField) []) (\<lambda>updateMap.
                 if length preconditionOrValues > 0
                 then check (validateUpdatePrecondition (Named ''preconditionOrValues'')
                               (nthArg preconditionOrValues 0))
                        (Inr (updateMap, newPrecondition (nthArg preconditionOrValues 0)))
                 else Inr (updateMap, precondition0))))))
             (\<lambda>(updateMap, precondition).
           check (validateUpdate (Named ''dataOrField'') updateMap)
          (bindE (snapshotFromUpdateMap E documentRef updateMap) (\<lambda>document.
           bindE (maskFromUpdateMap E updateMap) (\<lambda>documentMask.
           let write =
                 (if \<not> snapshotIsEmpty document \<or> \<not> maskIsEmpty documentMask
                  then Some ((snapshotToProto document)\<lparr>w_updateMask := Some documentMask\<rparr>)
                  else None)
           in bindE (transformFromUpdateMap E documentRef updateMap) (\<lambda>transform.
              check (transformValidate E transform)
             (Inr \<lparr>op_write = write,
                   op_transform = transformToProto transform,
                   op_precondition = preconditionToProto precondition\<rparr>)))))))))"

definition update :: "ext \<Rightarrow> WriteBatch \<Rightarrow> jsval list \<Rightarrow> error option \<times> WriteBatch" where
  "update E b args = finish b (update_op E b args)"

subsection \<open>Commit\<close>

text \<open>
  Modelled from the spec: \<open>index.ts\<close> is missing. The Firestore client as the batch
  reads it: the database name, the transaction preference, and the time of the last
  successful request in milliseconds, if any. The transport answers a
  \<open>beginTransaction\<close> call with a transaction id and a \<open>commit\<close> call with the
  commit time and the list of write results, each with an optional update time; a
  response without \<open>writeResults\<close> has \<open>None\<close> there.
\<close>

record Firestore =
  databaseName :: string
  preferTransactions :: bool
  lastSuccessfulRequest :: "int option"

type_synonym bytes = "nat list"

record CommitResponse =
  commitTime :: ITimestamp
  writeResults :: "ITimestamp option list option"

text \<open>
  A remote call issued through \<open>this._firestore.request\<close>: the method and the
  request it carries (database; for a commit also the writes and the transaction id).
\<close>

datatype rpc =
    BeginTransactionRpc string
  | CommitRpc string "IWrite list" "bytes option"

text \<open>\<open>_shouldCreateTransaction\<close>; \<open>now\<close> is what \<open>new Date().getTime()\<close> returns.\<close>

definition shouldCreateTransaction :: "Firestore \<Rightarrow> int \<Rightarrow> bool" where
  "shouldCreateTransaction fs now =
     (if \<not> preferTransactions fs then False
      else (case lastSuccessfulRequest fs of
              Some t \<Rightarrow> if t \<noteq> 0 then now - t > GCF_IDLE_TIMEOUT_MS else True
            | None \<Rightarrow> True))"

text \<open>
  The body of the first loop of \<open>commit_\<close> for one operation: the precondition goes
  into \<open>req.write || req.transform\<close>, which is an object of the batch and also the
  object sent.
\<close>

definition attachPrecondition :: "WriteOp \<Rightarrow> WriteOp" where
  "attachPrecondition req =
     (case op_precondition req of
        None \<Rightarrow> req
      | Some p \<Rightarrow>
          (case op_write req of
             Some w \<Rightarrow> req\<lparr>op_write := Some (w\<lparr>w_currentDocument := Some p\<rparr>)\<rparr>
           | None \<Rightarrow>
               (case op_transform req of
                  Some t \<Rightarrow> req\<lparr>op_transform := Some (t\<lparr>w_currentDocument := Some p\<rparr>)\<rparr>
                | None \<Rightarrow> req)))"

definition entries :: "WriteOp \<Rightarrow> IWrite list" where
  "entries req =
     (case op_write req of Some w \<Rightarrow> [w] | None \<Rightarrow> []) @
     (case op_transform req of Some t \<Rightarrow> [t] | None \<Rightarrow> [])"

text \<open>
  The first loop: the error of the assertion if it fails, the operations of the batch
  after the loop, and \<open>request.writes\<close>.
\<close>

fun serializeWrites :: "WriteOp list \<Rightarrow> error option \<times> WriteOp list \<times> IWrite list" where
  "serializeWrites [] = (None, [], [])"
| "serializeWrites (req # rest) =
     (if op_write req = None \<and> op_transform req = None
      then (Some AssertionError, req # rest, [])
      else
        (let req' = attachPrecondition req
         in case serializeWrites rest of
              (e, rest', ws) \<Rightarrow> (e, req' # rest', entries req' @ ws)))"

text \<open>
  The second loop, over \<open>this._writes\<close> from index \<open>i\<close> on with the current
  \<open>offset\<close>. Reading \<open>resp.writeResults\<close> beyond its end gives \<open>undefined\<close>,
  whose \<open>updateTime\<close> is a TypeError.
\<close>

fun demux ::
  "Timestamp \<Rightarrow> ITimestamp option list \<Rightarrow> nat \<Rightarrow> nat \<Rightarrow> WriteOp list
     \<Rightarrow> error + WriteResult list" where
  "demux ct rs i offset [] = Inr []"
| "demux ct rs i offset (writeRequest # rest) =
     (let offset' = (if op_write writeRequest \<noteq> None \<and> op_transform writeRequest \<noteq> None
                     then offset + 1 else offset)
      in if i + offset' < length rs then
           (let writeResult = rs ! (i + offset');
                r = WriteResult (case writeResult of Some t \<Rightarrow> fromProto t | None \<Rightarrow> ct)
            in case demux ct rs (i + 1) offset' rest of
                 Inl e \<Rightarrow> Inl e
               | Inr res \<Rightarrow> Inr (r # res))
         else Inl TypeError)"

text \<open>
  The handler of the commit response. The message of the assertion is built before the
  assertion is tested and reads \<open>resp.writeResults.length\<close>, which is a TypeError
  when the response has no \<open>writeResults\<close>.
\<close>

definition commitThen ::
  "WriteOp list \<Rightarrow> IWrite list \<Rightarrow> CommitResponse \<Rightarrow> error + WriteResult list" where
  "commitThen ws requestWrites resp =
     (if length requestWrites > 0 then
        (case writeResults resp of
           None \<Rightarrow> Inl TypeError
         | Some rs \<Rightarrow>
             if length requestWrites \<noteq> length rs then Inl AssertionError
             else demux (fromProto (commitTime resp)) rs 0 0 ws)
      else Inr [])"

text \<open>
  \<open>commit_\<close> from \<open>request.writes = []\<close> to its end: the first loop, the
  \<open>committed\<close> flag, the commit call and the handler of its response. An assertion
  that fails in the loop is raised before any call is issued.
\<close>

definition sendCommit ::
  "Firestore \<Rightarrow> error + CommitResponse \<Rightarrow> WriteBatch \<Rightarrow> bytes option
     \<Rightarrow> rpc list \<times> (error + WriteResult list) \<times> WriteBatch" where
  "sendCommit fs commitReply b transactionId =
     (case serializeWrites (writes b) of
        (Some e, ws, requestWrites) \<Rightarrow> ([], Inl e, b\<lparr>writes := ws\<rparr>)
      | (None, ws, requestWrites) \<Rightarrow>
          ([CommitRpc (databaseName fs) requestWrites transactionId],
           (case commitReply of
              Inl e \<Rightarrow> Inl e
            | Inr resp \<Rightarrow> commitThen ws requestWrites resp),
           b\<lparr>writes := ws, committed := True\<rparr>))"

text \<open>
  \<open>commit_\<close>, here \<open>commit'\<close>. The transport is given by what it will answer:
  \<open>beginReply\<close> to a \<open>beginTransaction\<close> call and \<open>commitReply\<close> to a
  \<open>commit\<close> call, each an error or a response; a transaction id is a byte array,
  which is truthy. The result is the calls issued in order, the outcome of the returned
  promise, and the batch afterwards.
\<close>

function commit' ::
  "Firestore \<Rightarrow> int \<Rightarrow> error + bytes \<Rightarrow> error + CommitResponse \<Rightarrow> WriteBatch \<Rightarrow> bytes option
     \<Rightarrow> rpc list \<times> (error + WriteResult list) \<times> WriteBatch" where
  "commit' fs now beginReply commitReply b transactionId =
     (if transactionId = None \<and> shouldCreateTransaction fs now then
        (case beginReply of
           Inl e \<Rightarrow> ([BeginTransactionRpc (databaseName fs)], Inl e, b)
         | Inr t \<Rightarrow>
             (case commit' fs now beginReply commitReply b (Some t) of
                (calls, r, b') \<Rightarrow> (BeginTransactionRpc (databaseName fs) # calls, r, b')))
      else sendCommit fs commitReply b transactionId)"
  by pat_completeness auto
termination
  by (relation "measure (\<lambda>(fs, now, br, cr, b, t). if t = None then 1 else 0)") auto

declare commit'.simps [simp del]

definition commit ::
  "Firestore \<Rightarrow> int \<Rightarrow> error + bytes \<Rightarrow> error + CommitResponse \<Rightarrow> WriteBatch
     \<Rightarrow> rpc list \<times> (error + WriteResult list) \<times> WriteBatch" where
  "commit fs now beginReply commitReply b = commit' fs now beginReply commitReply b None"


section \<open>An instance of the collaborators\<close>

text \<open>
  Modelled from the spec: the validators and builders of \<open>path.ts\<close>,
  \<open>reference.ts\<close>, \<open>serializer.ts\<close> and \<open>document.ts\<close> are missing. This
  instance follows the specification's description of the document value model: the
  input tree is walked to its leaves, each leaf is a plain value, a delete sentinel or a
  transform sentinel; plain leaves form the snapshot, transform leaves the transform
  list, addressed by their full path; delete sentinels are legal at every depth when
  merging, only as direct values in an update, and nowhere in a full replace. It serves
  to run the operations on concrete inputs; the theorems below hold for every instance.
\<close>

text \<open>
  Modelled from the spec: the walk of the input tree to its leaves, each with its full
  path; a nested plain object with properties is walked, everything else is a leaf.
\<close>

fun leaves :: "segments \<Rightarrow> jsval \<Rightarrow> (segments \<times> jsval) list" where
  "leaves p (Object c props) =
     (if c = ''Object'' \<and> props \<noteq> []
      then concat (map (\<lambda>(k, v). leaves (p @ [k]) v) props)
      else [(p, Object c props)])"
| "leaves p v = [(p, v)]"

text \<open>
  Modelled from the spec: the classification of a leaf as delete sentinel, transform
  sentinel or plain value.
\<close>

fun isDeleteSentinel :: "jsval \<Rightarrow> bool" where
  "isDeleteSentinel (FieldValueV k) = (k = ''DeleteTransform'')"
| "isDeleteSentinel v = False"

fun isTransformSentinel :: "jsval \<Rightarrow> bool" where
  "isTransformSentinel (FieldValueV k) = (k \<noteq> ''DeleteTransform'')"
| "isTransformSentinel v = False"

fun isSentinel :: "jsval \<Rightarrow> bool" where
  "isSentinel (FieldValueV k) = True"
| "isSentinel v = False"

text \<open>
  Modelled from the spec: the legality of a value as user input, at a nesting level and
  inside or outside an array, under the options of the caller.
\<close>

fun userInputOk :: "userInputOptions \<Rightarrow> nat \<Rightarrow> bool \<Rightarrow> jsval \<Rightarrow> bool" where
  "userInputOk opts level inArray Undefined = False"
| "userInputOk opts level inArray (FieldValueV k) =
     (\<not> inArray \<and>
      (if k = ''DeleteTransform''
       then allowDeletes opts = ''all'' \<or> (allowDeletes opts = ''root'' \<and> level = 0)
       else allowTransforms opts))"
| "userInputOk opts level inArray (Array xs) =
     (\<forall>x \<in> set xs. userInputOk opts (level + 1) True x)"
| "userInputOk opts level inArray (Object c props) =
     (c = ''Object'' \<and> (\<forall>(k, v) \<in> set props. userInputOk opts (level + 1) inArray v))"
| "userInputOk opts level inArray (FieldPathV i p) = False"
| "userInputOk opts level inArray v = True"

text \<open>
  Modelled from the spec: a field path is parsed from its dotted-string form or taken
  from a FieldPath object; a dotted string with an empty segment is invalid.
\<close>

fun splitDots :: "string \<Rightarrow> string \<Rightarrow> string list" where
  "splitDots acc [] = [rev acc]"
| "splitDots acc (c # cs) =
     (if c = CHR ''.'' then rev acc # splitDots [] cs else splitDots (c # acc) cs)"

definition spec_validateFieldPath :: "argname \<Rightarrow> jsval \<Rightarrow> error option" where
  "spec_validateFieldPath arg v =
     (case v of
        FieldPathV i p \<Rightarrow> None
      | String s \<Rightarrow>
          if [] \<in> set (splitDots [] s) then Some (ArgError arg ''field path'' []) else None
      | _ \<Rightarrow> Some (ArgError arg ''field path'' []))"

definition spec_fromArgument :: "jsval \<Rightarrow> error + segments" where
  "spec_fromArgument v =
     (case v of
        FieldPathV i p \<Rightarrow> Inr p
      | String s \<Rightarrow> Inr (splitDots [] s)
      | _ \<Rightarrow> Inl (ExternalError ''fromArgument''))"

text \<open>
  Modelled from the spec: the projection of the input onto the allowed paths of a field
  mask; a path that is not under an allowed prefix is dropped.
\<close>

definition covered :: "segments list \<Rightarrow> segments \<Rightarrow> bool" where
  "covered fm q = (\<exists>m \<in> set fm. isPrefixOf m q)"

definition reaches :: "segments list \<Rightarrow> segments \<Rightarrow> bool" where
  "reaches fm q = (\<exists>m \<in> set fm. isPrefixOf q m)"

fun prune :: "segments list \<Rightarrow> segments \<Rightarrow> jsval \<Rightarrow> jsval" where
  "prune fm p (Object c props) =
     (if c = ''Object''
      then Object c (concat (map (\<lambda>(k, v).
             if covered fm (p @ [k]) then [(k, v)]
             else if reaches fm (p @ [k]) then [(k, prune fm (p @ [k]) v)]
             else []) props))
      else Object c props)"
| "prune fm p v = v"

text \<open>
  Modelled from the spec: the leaves of a document and the transform list taken from
  them; a delete sentinel is no transform.
\<close>

definition topLeaves :: "jsval \<Rightarrow> (segments \<times> jsval) list" where
  "topLeaves data = concat (map (\<lambda>(k, v). leaves [k] v) (ownProps data))"

definition transformsOf :: "(segments \<times> jsval) list \<Rightarrow> (segments \<times> string) list" where
  "transformsOf ls =
     concat (map (\<lambda>(p, v). case v of
                              FieldValueV k \<Rightarrow> if k \<noteq> ''DeleteTransform'' then [(p, k)] else []
                            | _ \<Rightarrow> []) ls)"

text \<open>
  Modelled from the spec: the instance. References are valid when they are
  DocumentReference objects, a plain object is an object literal, snapshots hold the
  plain leaves, transforms the transform leaves, masks the paths touched other than
  transforms.
\<close>

definition specExt :: ext where
  "specExt =
     \<lparr>validateDocumentReference =
        (\<lambda>arg v. case v of DocumentReferenceV n \<Rightarrow> None
                  | _ \<Rightarrow> Some (ArgError arg ''DocumentReference'' [])),
      isPlainObject = (\<lambda>v. case v of Object c props \<Rightarrow> c = ''Object'' | _ \<Rightarrow> False),
      validateUserInput =
        (\<lambda>arg v desc opts path.
           if userInputOk opts 0 False v then None else Some (ArgError arg desc [])),
      validateFieldPath = spec_validateFieldPath,
      validateFieldValue =
        (\<lambda>arg v path.
           if userInputOk \<lparr>allowEmpty = True, allowDeletes = ''root'', allowTransforms = True\<rparr>
                0 False v
           then None else Some (ArgError arg ''Firestore value'' [])),
      fromArgument = spec_fromArgument,
      snapshotFromObject =
        (\<lambda>r data. Inr \<lparr>ds_ref = formattedName r,
                        ds_fields = filter (\<lambda>(p, v). \<not> isSentinel v) (topLeaves data)\<rparr>),
      snapshotFromUpdateMap =
        (\<lambda>r m. Inr \<lparr>ds_ref = formattedName r,
                     ds_fields = filter (\<lambda>(p, v). \<not> isSentinel v)
                                   (map (\<lambda>(k, v). (snd k, v)) m)\<rparr>),
      transformFromObject =
        (\<lambda>r data. Inr \<lparr>dt_ref = formattedName r,
                        dt_transforms = transformsOf (topLeaves data)\<rparr>),
      transformFromUpdateMap =
        (\<lambda>r m. Inr \<lparr>dt_ref = formattedName r,
                     dt_transforms = transformsOf (map (\<lambda>(k, v). (snd k, v)) m)\<rparr>),
      transformValidate = (\<lambda>t. None),
      maskFromFieldMask = mapE spec_fromArgument,
      maskApplyTo = (\<lambda>fm data. Inr (prune fm [] data)),
      maskRemoveFields = (\<lambda>fm fs. filter (\<lambda>p. p \<notin> set fs) fm),
      maskFromObject =
        (\<lambda>data. Inr (map fst (filter (\<lambda>(p, v). \<not> isTransformSentinel v) (topLeaves data)))),
      maskFromUpdateMap =
        (\<lambda>m. Inr (map fst (filter (\<lambda>(p, v). \<not> isTransformSentinel v)
                              (map (\<lambda>(k, v). (snd k, v)) m))))\<rparr>"


section \<open>Notions of the specification\<close>

text \<open>
  The update map is ambiguous when two distinct entries have paths in a prefix
  relationship: equal paths, or a parent and a child such as \<open>a\<close> and \<open>a.b\<close>.
\<close>

definition ambiguous :: "segments list \<Rightarrow> bool" where
  "ambiguous fs =
     (\<exists>i < length fs. \<exists>j < length fs. i \<noteq> j \<and> isPrefixOf (fs ! i) (fs ! j))"

text \<open>The same, by recursion over the list: some element conflicts with a later one.\<close>

fun conflict :: "segments list \<Rightarrow> bool" where
  "conflict [] = False"
| "conflict (x # xs) = ((\<exists>y \<in> set xs. isPrefixOf x y \<or> isPrefixOf y x) \<or> conflict xs)"

text \<open>
  A logical operation sends one wire entry for its write and one for its transform,
  whichever it has, in this order.
\<close>

definition wireList :: "WriteOp list \<Rightarrow> IWrite list" where
  "wireList ws = concat (map entries ws)"

definition hasEntry :: "WriteOp \<Rightarrow> bool" where
  "hasEntry w = (op_write w \<noteq> None \<or> op_transform w \<noteq> None)"

definition sentBoth :: "WriteOp \<Rightarrow> bool" where
  "sentBoth w = (op_write w \<noteq> None \<and> op_transform w \<noteq> None)"

text \<open>
  Result demultiplexing in the specification's words: walk the operations in order and
  consume one result of the flat response list per entry sent; for an operation that
  sent both entries discard the write's result and keep the transform's, for a
  single-entry operation use that entry's; the write time is the reported update time,
  or the commit time of the batch when the server reported none.
\<close>

definition reportedTime :: "Timestamp \<Rightarrow> ITimestamp option \<Rightarrow> Timestamp" where
  "reportedTime ct r = (case r of Some t \<Rightarrow> fromProto t | None \<Rightarrow> ct)"

fun reassemble ::
  "Timestamp \<Rightarrow> WriteOp list \<Rightarrow> ITimestamp option list \<Rightarrow> WriteResult list" where
  "reassemble ct [] rs = []"
| "reassemble ct (w # ws) rs =
     (if sentBoth w
      then (case rs of
              writeResult # transformResult # rest \<Rightarrow>
                WriteResult (reportedTime ct transformResult) # reassemble ct ws rest
            | _ \<Rightarrow> [])
      else (case rs of
              result # rest \<Rightarrow> WriteResult (reportedTime ct result) # reassemble ct ws rest
            | [] \<Rightarrow> []))"

text \<open>The idle heuristic in the specification's words.\<close>

definition idleLongEnough :: "Firestore \<Rightarrow> int \<Rightarrow> bool" where
  "idleLongEnough fs now =
     (preferTransactions fs \<and>
      (case lastSuccessfulRequest fs of
         None \<Rightarrow> True
       | Some t \<Rightarrow> now - t > 110000))"

section \<open>Example inputs\<close>

text \<open>
  A new batch, as the constructor leaves it, and the batch of the specification's round
  trip: a \<open>set\<close> with one plain field and one transform field, then a \<open>create\<close>
  with one plain field, built with the instance of the collaborators above.
\<close>

definition newBatch :: WriteBatch where
  "newBatch = \<lparr>writes = [], committed = False\<rparr>"

definition exampleRef :: jsval where
  "exampleRef = DocumentReferenceV ''col/doc''"

definition exampleFirestore :: Firestore where
  "exampleFirestore =
     \<lparr>databaseName = ''projects/p/databases/d'', preferTransactions = True,
      lastSuccessfulRequest = Some 1000000\<rparr>"

definition exampleBatch :: WriteBatch where
  "exampleBatch =
     snd (create specExt
            (snd (set' specExt newBatch exampleRef
                    (Object ''Object''
                       [(''foo'', String ''bar''),
                        (''t'', FieldValueV ''ServerTimestampTransform'')])
                    Undefined))
            exampleRef (Object ''Object'' [(''foo'', String ''bar'')]))"

definition exampleResponse :: CommitResponse where
  "exampleResponse =
     \<lparr>commitTime = \<lparr>seconds = 9, nanos = 0\<rparr>,
      writeResults = Some [Some \<lparr>seconds = 1, nanos = 0\<rparr>, Some \<lparr>seconds = 2, nanos = 0\<rparr>, None]\<rparr>"

section \<open>The validation layer: properties\<close>

lemma forEachE_None_iff: "forEachE f xs = None \<longleftrightarrow> (\<forall>x \<in> set xs. f x = None)"
  by (induction xs) (auto split: option.splits)

lemma check_Inr_iff: "check r k = Inr x \<longleftrightarrow> r = None \<and> k = Inr x"
  by (cases r) (simp_all add: check_def)

lemma check_Inl_iff: "check r k = Inl e \<longleftrightarrow> r = Some e \<or> r = None \<and> k = Inl e"
  by (cases r) (auto simp: check_def)

lemma bindE_Inr_iff: "bindE m f = Inr y \<longleftrightarrow> (\<exists>x. m = Inr x \<and> f x = Inr y)"
  by (cases m) (simp_all add: bindE_def)

lemma not_optional_number: "\<not> isOptional (Number y) opts"
  by (simp add: isOptional_def)

lemma is_nan_iff: "is_nan x = (x = NaN)"
  by (cases x) simp_all

lemma isNaN_iff: "isNaN x = (x = NaN)"
  by (cases x) simp_all

text \<open>
  Claim C6, as amended. \<open>validateNumber\<close>, in both copies, rejects every value that
  is not a number, and NaN, before any range check. A number other than NaN, finite or
  not, is then rejected for range exactly when it is below the lower bound or above
  \<open>options.maxValue\<close>, for options that supply a \<open>maxValue\<close>; the lower bound is
  \<open>options.minValue\<close> when supplied and \<open>-Infinity\<close> otherwise, and the error
  carries both bounds and the value. Nothing is stated for a call without
  \<open>maxValue\<close>.
\<close>

theorem validateNumber_range_check:
  "(\<not> isOptional v opts \<and> (\<forall>x. v \<noteq> Number x) \<longrightarrow>
      validateNumber arg v opts = Some (ArgError arg ''number'' []) \<and>
      validateNumber_part000 arg v opts = Some (ArgError arg ''number'' []))
   \<and> validateNumber arg (Number NaN) opts = Some (ArgError arg ''number'' [])
   \<and> validateNumber_part000 arg (Number NaN) opts = Some (ArgError arg ''number'' [])
   \<and> (x \<noteq> NaN \<and> maxValue ops = Some mx \<longrightarrow>
        (let mn = (case minValue ops of None \<Rightarrow> NegInfinity | Some m \<Rightarrow> m);
             r = (if js_lt x mn \<or> js_lt mx x then Some (RangeError arg mn mx x) else None)
         in validateNumber arg (Number x) (Some ops) = r \<and>
            validateNumber_part000 arg (Number x) (Some ops) = r))"
  by (cases v)
     (auto simp: validateNumber_def validateNumber_part000_def not_optional_number
                 is_nan_iff isNaN_iff js_gt_def Let_def
           split: option.splits)

theorem validateNumber_range_check_witness:
  "validateNumber (AtIndex 0) (Number (Finite 5))
     (Some \<lparr>optional = None, minValue = Some (Finite 0), maxValue = Some (Finite 10)\<rparr>) = None
   \<and> validateNumber_part000 (AtIndex 0) (Number (Finite 11))
     (Some \<lparr>optional = None, minValue = None, maxValue = Some (Finite 10)\<rparr>)
     = Some (RangeError (AtIndex 0) NegInfinity (Finite 10) (Finite 11))
   \<and> validateNumber (AtIndex 0) (String ''5'') None = Some (ArgError (AtIndex 0) ''number'' [])"
  using validateNumber_range_check
          [of "String ''5''" None "AtIndex 0" "Finite 5"
              "\<lparr>optional = None, minValue = Some (Finite 0), maxValue = Some (Finite 10)\<rparr>"
              "Finite 10"]
        validateNumber_range_check
          [of Undefined None "AtIndex 0" "Finite 11"
              "\<lparr>optional = None, minValue = None, maxValue = Some (Finite 10)\<rparr>"
              "Finite 10"]
  by (simp add: isOptional_def Let_def)

text \<open>
  Claim C6 as stated fails: the infinities are not finite, and both copies accept
  \<open>-Infinity\<close> under the options \<open>maxValue: 10\<close> and \<open>Infinity\<close> under
  \<open>maxValue: Infinity\<close>; only NaN is rejected ahead of the range check.
\<close>

theorem validateNumber_accepts_infinity:
  "\<not> isFinite NegInfinity \<and> \<not> isFinite Infinity
   \<and> validateNumber (AtIndex 0) (Number NegInfinity)
       (Some \<lparr>optional = None, minValue = None, maxValue = Some (Finite 10)\<rparr>) = None
   \<and> validateNumber_part000 (AtIndex 0) (Number NegInfinity)
       (Some \<lparr>optional = None, minValue = None, maxValue = Some (Finite 10)\<rparr>) = None
   \<and> validateNumber (AtIndex 0) (Number Infinity)
       (Some \<lparr>optional = None, minValue = None, maxValue = Some Infinity\<rparr>) = None
   \<and> validateNumber_part000 (AtIndex 0) (Number Infinity)
       (Some \<lparr>optional = None, minValue = None, maxValue = Some Infinity\<rparr>) = None"
  by (simp add: validateNumber_def validateNumber_part000_def isOptional_def js_gt_def)

text \<open>
  Beside the claim: \<open>max\<close> defaults to \<open>-Infinity\<close> in both copies, where
  \<open>validateInteger\<close> has \<open>Infinity\<close>, so a call without \<open>maxValue\<close> rejects
  every finite number.
\<close>

lemma validateNumber_without_maxValue:
  assumes "opts = None \<or> (\<exists>ops. opts = Some ops \<and> maxValue ops = None \<and> minValue ops = None)"
  shows "validateNumber arg (Number (Finite x)) opts
           = Some (RangeError arg NegInfinity NegInfinity (Finite x))"
    and "validateNumber_part000 arg (Number (Finite x)) opts
           = Some (RangeError arg NegInfinity NegInfinity (Finite x))"
  using assms
  by (auto simp: validateNumber_def validateNumber_part000_def not_optional_number js_gt_def)

text \<open>
  Claim C9, as amended. Both copies of \<open>validateObject\<close> accept every value that
  is skipped as optional or is an \<open>[object Object]\<close>; on every other value the copy
  of \<open>dev/src/validate.ts\<close> raises, and nothing is stated for the second copy there.
  The two copies of \<open>customObjectMessage\<close> test for an object in different ways, by
  the \<open>toString\<close> tag and by \<open>typeof\<close>. On every value on which the two tests
  agree, which leaves out arrays and the other objects with a tag of their own (a Date, a
  Map, a Buffer), they choose the message for a recognised domain type for the same
  values, and they choose the same message class unless the constructor is named
  \<open>Object\<close>. On every value, the second copy chooses the message for a recognised
  domain type whenever the first does.
\<close>

theorem validation_copies_agreement:
  "(isOptional v opts \<or> is_object v \<longrightarrow>
      validateObject arg v opts = None \<and> validateObject_part000 arg v opts = None)
   \<and> (\<not> isOptional v opts \<and> \<not> is_object v \<longrightarrow>
        validateObject arg v opts = Some (ArgError arg ''object'' []))
   \<and> ((is_object v \<longleftrightarrow> typeof v = ''object'' \<and> v \<noteq> Null) \<and>
        \<not> (is_object v \<and> constructorName v = ''Object'') \<longrightarrow>
        classOf (customObjectMessage arg v path) =
        classOf (customObjectMessage_part000 arg v path))
   \<and> ((is_object v \<longleftrightarrow> typeof v = ''object'' \<and> v \<noteq> Null) \<longrightarrow>
        (classOf (customObjectMessage arg v path) = DomainTypeMismatch \<longleftrightarrow>
         classOf (customObjectMessage_part000 arg v path) = DomainTypeMismatch))
   \<and> (classOf (customObjectMessage arg v path) = DomainTypeMismatch \<longrightarrow>
        classOf (customObjectMessage_part000 arg v path) = DomainTypeMismatch)"
  by (cases v)
     (auto simp: validateObject_def validateObject_part000_def customObjectMessage_def
                 customObjectMessage_part000_def Let_def domainTypeNames_def)

theorem validation_copies_agreement_witness:
  "isOptional Undefined (Some \<lparr>optional = Some True, minValue = None, maxValue = None\<rparr>)
   \<and> validateObject_part000 (Named ''x'') Undefined
       (Some \<lparr>optional = Some True, minValue = None, maxValue = None\<rparr>) = None
   \<and> validateObject (Named ''x'') (Object ''Object'' []) None = None
   \<and> validateObject_part000 (Named ''x'') (Object ''Object'' []) None = None
   \<and> validateObject (Named ''x'') (String ''s'') None
       = Some (ArgError (Named ''x'') ''object'' [])
   \<and> classOf (customObjectMessage (Named ''x'') (Object ''Timestamp'' []) None) =
       classOf (customObjectMessage_part000 (Named ''x'') (Object ''Timestamp'' []) None)"
  using validation_copies_agreement
          [of Undefined "Some \<lparr>optional = Some True, minValue = None, maxValue = None\<rparr>"
              "Named ''x''" None]
        validation_copies_agreement [of "Object ''Object'' []" None "Named ''x''" None]
        validation_copies_agreement [of "String ''s''" None "Named ''x''" None]
        validation_copies_agreement [of "Object ''Timestamp'' []" None "Named ''x''" None]
  by (simp add: isOptional_def)

text \<open>
  Claim C9 as stated fails on objects that \<open>typeof\<close> calls objects and the
  \<open>toString\<close> tag does not. A Date and an empty array are rejected by
  \<open>validateObject\<close> of \<open>dev/src/validate.ts\<close> and accepted by the second copy, and
  each is classified as a non-object input by one \<open>customObjectMessage\<close> and as an
  object with a custom prototype by the other.
\<close>

theorem validation_copies_differ:
  "validateObject (Named ''x'') (Builtin ''Date'') None
     = Some (ArgError (Named ''x'') ''object'' [])
   \<and> validateObject_part000 (Named ''x'') (Builtin ''Date'') None = None
   \<and> customObjectMessage (Named ''x'') (Builtin ''Date'') None
       = NotPlainObject (Named ''x'') None
   \<and> customObjectMessage_part000 (Named ''x'') (Builtin ''Date'') None
       = CouldntSerialize (Named ''x'') ''Date'' None
   \<and> classOf (customObjectMessage (Named ''x'') (Builtin ''Date'') None) = NonObjectInput
   \<and> classOf (customObjectMessage_part000 (Named ''x'') (Builtin ''Date'') None)
       = CustomPrototype
   \<and> validateObject (Named ''x'') (Array []) None
       = Some (ArgError (Named ''x'') ''object'' [])
   \<and> validateObject_part000 (Named ''x'') (Array []) None = None
   \<and> classOf (customObjectMessage (Named ''x'') (Array []) None) = NonObjectInput
   \<and> classOf (customObjectMessage_part000 (Named ''x'') (Array []) None) = CustomPrototype"
  by (simp add: validateObject_def validateObject_part000_def customObjectMessage_def
                customObjectMessage_part000_def Let_def domainTypeNames_def isOptional_def)

text \<open>
  Beside the claim: the test of the second copy,
  \<open>typeof value !== 'object' && value === null\<close>, holds of no value.
\<close>

lemma validateObject_part000_never_raises: "validateObject_part000 arg v opts = None"
  by (cases v) (simp_all add: validateObject_part000_def)

section \<open>Read options: properties\<close>

lemma validateReadOptions_accepts:
  assumes "validateReadOptions E arg v = None" and "v \<noteq> Undefined"
  shows "\<exists>xs. getProp v ''fieldMask'' = Inr (Array xs) \<and>
              (\<forall>i < length xs. validateFieldPath E (AtIndex i) (xs ! i) = None)"
proof -
  from assms obtain fm where fm: "getProp v ''fieldMask'' = Inr fm" and arr: "isArray fm"
    and loop: "forEachE (\<lambda>(i, x). case validateFieldPath E (AtIndex i) x of
                                    Some err \<Rightarrow>
                                      Some (NotValidError arg ''read option'' ''fieldMask'' err)
                                  | None \<Rightarrow> None)
                 (zip [0..<length (elements fm)] (elements fm)) = None"
    by (auto simp: validateReadOptions_def split: if_splits sum.splits)
  from arr obtain xs where xs: "fm = Array xs" by (cases fm) auto
  have "\<forall>i < length xs. validateFieldPath E (AtIndex i) (xs ! i) = None"
  proof (intro allI impI)
    fix i assume i: "i < length xs"
    then have "(i, xs ! i) \<in> set (zip [0..<length xs] xs)"
      by (auto simp: set_zip intro!: exI [of _ i])
    with loop xs show "validateFieldPath E (AtIndex i) (xs ! i) = None"
      by (auto simp: forEachE_None_iff split: option.splits)
  qed
  with fm xs show ?thesis by auto
qed

lemma validateReadOptions_no_fieldMask:
  assumes "getProp v ''fieldMask'' = Inr Undefined"
  shows "validateReadOptions E arg v
           = Some (ArgError arg ''read option'' ''fieldMask is not an array.'')"
proof -
  from assms have "v \<noteq> Undefined" "v \<noteq> Null" by auto
  with assms show ?thesis by (simp add: validateReadOptions_def)
qed

lemma parseGetAllArguments_no_fieldMask:
  assumes args: "args \<noteq> []"
    and plain: "isPlainObject E (last args)"
    and lacks: "getProp (last args) ''fieldMask'' = Inr Undefined"
    and style: "\<not> isArray (nthArg args 0) \<or> length args = 2"
  shows "\<exists>e. parseGetAllArguments E args = Inl e"
proof -
  have ro: "validateReadOptions E (Named ''options'') (last args)
              = Some (ArgError (Named ''options'') ''read option''
                        ''fieldMask is not an array.'')"
    using lacks by (rule validateReadOptions_no_fieldMask)
  have l2: "length args = 2 \<Longrightarrow> nthArg args 1 = last args"
    using args by (simp add: nthArg_def last_conv_nth)
  have "parseGetAllArguments E args \<noteq> Inr r" for r
    using style args plain ro l2
    by (auto simp: parseGetAllArguments_def Let_def check_Inr_iff split: if_splits)
  then show ?thesis by (cases "parseGetAllArguments E args") auto
qed

text \<open>
  Claim C10. A defined options value passes \<open>validateReadOptions\<close> only when its
  \<open>fieldMask\<close> is an array whose every element passes \<open>validateFieldPath\<close>. An
  options object with no \<open>fieldMask\<close> property is rejected with the error that
  \<open>fieldMask\<close> is not an array. So \<open>parseGetAllArguments\<close> fails whenever the
  trailing plain object that it takes as the read options lacks a \<open>fieldMask\<close>: in a
  call of document references followed by the options, and in a call of one array of
  references followed by the options.
\<close>

theorem validateReadOptions_requires_fieldMask:
  "(v \<noteq> Undefined \<and> validateReadOptions E arg v = None \<longrightarrow>
      (\<exists>xs. getProp v ''fieldMask'' = Inr (Array xs) \<and>
            (\<forall>i < length xs. validateFieldPath E (AtIndex i) (xs ! i) = None)))
   \<and> (map_of props ''fieldMask'' = None \<longrightarrow>
        validateReadOptions E arg (Object c props)
          = Some (ArgError arg ''read option'' ''fieldMask is not an array.''))
   \<and> (args \<noteq> [] \<and> isPlainObject E (last args) \<and>
        getProp (last args) ''fieldMask'' = Inr Undefined \<and>
        (\<not> isArray (nthArg args 0) \<or> length args = 2) \<longrightarrow>
        (\<exists>e. parseGetAllArguments E args = Inl e))"
  using validateReadOptions_accepts [of E arg v]
        validateReadOptions_no_fieldMask [of "Object c props" E arg]
        parseGetAllArguments_no_fieldMask [of args E]
  by auto

theorem validateReadOptions_requires_fieldMask_witness:
  "validateReadOptions specExt (Named ''options'')
      (Object ''Object'' [(''fieldMask'', Array [String ''a.b''])]) = None
   \<and> validateFieldPath specExt (AtIndex 0) (String ''a.b'') = None
   \<and> validateReadOptions specExt (Named ''options'') (Object ''Object'' [])
        = Some (ArgError (Named ''options'') ''read option'' ''fieldMask is not an array.'')
   \<and> (\<exists>e. parseGetAllArguments specExt
              [DocumentReferenceV ''col/doc'', Object ''Object'' []] = Inl e)"
proof -
  have ok: "validateReadOptions specExt (Named ''options'')
      (Object ''Object'' [(''fieldMask'', Array [String ''a.b''])]) = None"
    by code_simp
  have pl: "isPlainObject specExt (Object ''Object'' [])"
    by (simp add: specExt_def)
  show ?thesis
    using ok pl
      validateReadOptions_requires_fieldMask
        [of "Object ''Object'' [(''fieldMask'', Array [String ''a.b''])]" specExt
            "Named ''options''" "[]" "''Object''"
            "[DocumentReferenceV ''col/doc'', Object ''Object'' []]"]
    by (simp add: nthArg_def)
qed

section \<open>Ambiguous update maps\<close>

lemma compareTo_le: "compareTo p q \<le> 0 \<longleftrightarrow> p \<le> q"
  by (induction p q rule: compareTo.induct) auto

lemma insertField_insort: "insertField x ys = insort x ys"
  by (induction ys) (simp_all add: compareTo_le)

lemma sortFields_sort: "sortFields fs = sort fs"
proof -
  have "insertField = insort" by (intro ext) (rule insertField_insort)
  then show ?thesis by (simp add: sortFields_def sort_key_def)
qed

lemma isPrefixOf_le: "isPrefixOf p q \<Longrightarrow> p \<le> q"
  by (induction p q rule: isPrefixOf.induct) auto

lemma isPrefixOf_refl: "isPrefixOf p p"
  by (induction p) auto

lemma isPrefixOf_between:
  "p \<le> z \<Longrightarrow> z \<le> q \<Longrightarrow> isPrefixOf p q \<Longrightarrow> isPrefixOf p z"
proof (induction p q arbitrary: z rule: isPrefixOf.induct)
  case (1 q)
  then show ?case by simp
next
  case (2 x xs)
  then show ?case by simp
next
  case (3 x xs y ys)
  then obtain c cs where z: "z = c # cs" by (cases z) auto
  with 3 show ?case by auto
qed

lemma conflict_ambiguous: "conflict fs \<longleftrightarrow> ambiguous fs"
proof (induction fs)
  case Nil
  then show ?case by (simp add: ambiguous_def)
next
  case (Cons x xs)
  show ?case
  proof
    assume "conflict (x # xs)"
    then consider y where "y \<in> set xs" "isPrefixOf x y \<or> isPrefixOf y x" | "conflict xs"
      by auto
    then show "ambiguous (x # xs)"
    proof cases
      case 1
      then obtain k where k: "k < length xs" "xs ! k = y" by (auto simp: in_set_conv_nth)
      from 1(2) show ?thesis
      proof
        assume "isPrefixOf x y"
        with k have "0 < length (x # xs) \<and> Suc k < length (x # xs) \<and> 0 \<noteq> Suc k \<and>
                     isPrefixOf ((x # xs) ! 0) ((x # xs) ! Suc k)" by simp
        then show ?thesis unfolding ambiguous_def by blast
      next
        assume "isPrefixOf y x"
        with k have "Suc k < length (x # xs) \<and> 0 < length (x # xs) \<and> Suc k \<noteq> 0 \<and>
                     isPrefixOf ((x # xs) ! Suc k) ((x # xs) ! 0)" by simp
        then show ?thesis unfolding ambiguous_def by blast
      qed
    next
      case 2
      with Cons obtain i j where "i < length xs" "j < length xs" "i \<noteq> j"
        "isPrefixOf (xs ! i) (xs ! j)" by (auto simp: ambiguous_def)
      then have "Suc i < length (x # xs) \<and> Suc j < length (x # xs) \<and> Suc i \<noteq> Suc j \<and>
                 isPrefixOf ((x # xs) ! Suc i) ((x # xs) ! Suc j)" by simp
      then show ?thesis unfolding ambiguous_def by blast
    qed
  next
    assume "ambiguous (x # xs)"
    then obtain i j where ij: "i < Suc (length xs)" "j < Suc (length xs)" "i \<noteq> j"
      "isPrefixOf ((x # xs) ! i) ((x # xs) ! j)" by (auto simp: ambiguous_def)
    show "conflict (x # xs)"
    proof (cases i)
      case 0
      with ij obtain j' where "j = Suc j'" "j' < length xs" by (cases j) auto
      with 0 ij have "xs ! j' \<in> set xs" "isPrefixOf x (xs ! j')" by auto
      then show ?thesis by auto
    next
      case (Suc i')
      show ?thesis
      proof (cases j)
        case 0
        with Suc ij have "xs ! i' \<in> set xs" "isPrefixOf (xs ! i') x" by auto
        then show ?thesis by auto
      next
        case (Suc j')
        with \<open>i = Suc i'\<close> ij have "i' < length xs" "j' < length xs" "i' \<noteq> j'"
          "isPrefixOf (xs ! i') (xs ! j')" by auto
        then have "ambiguous xs" unfolding ambiguous_def by blast
        with Cons show ?thesis by simp
      qed
    qed
  qed
qed

lemma conflict_insort: "conflict (insort x xs) \<longleftrightarrow> conflict (x # xs)"
  by (induction xs) (auto simp: set_insort_key)

lemma conflict_sort: "conflict (sort xs) \<longleftrightarrow> conflict xs"
  by (induction xs) (auto simp: conflict_insort)

lemma scanAdjacent_sorted:
  "sorted fs \<Longrightarrow> (scanAdjacent arg fs \<noteq> None) = conflict fs"
proof (induction arg fs rule: scanAdjacent.induct)
  case (1 arg x y rest)
  show ?case
  proof (cases "isPrefixOf x y")
    case True
    then show ?thesis by auto
  next
    case False
    have no: "\<not> (isPrefixOf x z \<or> isPrefixOf z x)" if z: "z \<in> set (y # rest)" for z
    proof
      assume pz: "isPrefixOf x z \<or> isPrefixOf z x"
      from 1(2) z have xz: "x \<le> z" and yz: "y \<le> z" and xy: "x \<le> y" by auto
      have "isPrefixOf x z"
      proof (rule disjE [OF pz])
        assume "isPrefixOf z x"
        then have "z \<le> x" by (rule isPrefixOf_le)
        with xz have "z = x" by simp
        then show "isPrefixOf x z" by (simp add: isPrefixOf_refl)
      qed
      with xy yz have "isPrefixOf x y" by (rule isPrefixOf_between)
      with False show False by simp
    qed
    from 1 False have "(scanAdjacent arg (y # rest) \<noteq> None) = conflict (y # rest)" by simp
    moreover have "conflict (x # y # rest) = conflict (y # rest)"
      using no by (simp del: conflict.simps(2) add: conflict.simps(2) [of x]) 
    ultimately show ?thesis using False by simp
  qed
qed simp_all

lemma scanAdjacent_error: "scanAdjacent arg fs = Some e \<Longrightarrow> \<exists>p \<in> set fs. e = SpecifiedMultipleTimes arg p"
  by (induction arg fs rule: scanAdjacent.induct) (auto split: if_splits)

text \<open>
  Claim C5. For every update map, \<open>validateUpdate\<close> raises the error that a field
  was specified multiple times if and only if two distinct entries have paths in a prefix
  relationship, equal paths included, and returns normally otherwise: the scan of
  adjacent pairs of the sorted paths misses no conflict. Only the linearity of the order
  on segments is used.
\<close>

theorem validateUpdate_detects_conflicts:
  "(ambiguous (map (\<lambda>(key, v). snd key) data) \<longrightarrow>
      (\<exists>p. validateUpdate arg data = Some (SpecifiedMultipleTimes arg p)))
   \<and> (\<not> ambiguous (map (\<lambda>(key, v). snd key) data) \<longrightarrow> validateUpdate arg data = None)"
proof -
  let ?fs = "map (\<lambda>(key, v). snd key) data"
  have "(scanAdjacent arg (sort ?fs) \<noteq> None) = conflict (sort ?fs)"
    by (rule scanAdjacent_sorted [OF sorted_sort])
  also have "\<dots> = conflict ?fs" by (rule conflict_sort)
  also have "\<dots> = ambiguous ?fs" by (rule conflict_ambiguous)
  finally show ?thesis
    by (auto simp: validateUpdate_def sortFields_sort dest: scanAdjacent_error)
qed


theorem validateUpdate_detects_conflicts_witness:
  "ambiguous [[''a'', ''b''], [''c''], [''a'']]
   \<and> (\<exists>p. validateUpdate (Named ''dataOrField'')
             [((Fresh 1, [''a'', ''b'']), Number (Finite 1)), ((Fresh 3, [''c'']), Null),
              ((Fresh 5, [''a'']), Number (Finite 2))]
           = Some (SpecifiedMultipleTimes (Named ''dataOrField'') p))
   \<and> \<not> ambiguous [[''a'', ''b''], [''a'', ''c'']]
   \<and> validateUpdate (Named ''dataOrField'')
         [((Fresh 1, [''a'', ''b'']), Number (Finite 1)), ((Fresh 3, [''a'', ''c'']), Null)] = None"
proof -
  have a: "ambiguous [[''a'', ''b''], [''c''], [''a'']]"
    by (simp add: conflict_ambiguous [symmetric])
  have b: "\<not> ambiguous [[''a'', ''b''], [''a'', ''c'']]"
    by (simp add: conflict_ambiguous [symmetric])
  show ?thesis
    using a b
      validateUpdate_detects_conflicts
        [of "[((Fresh 1, [''a'', ''b'']), Number (Finite 1)), ((Fresh 3, [''c'']), Null),
              ((Fresh 5, [''a'']), Number (Finite 2))]" "Named ''dataOrField''"]
      validateUpdate_detects_conflicts
        [of "[((Fresh 1, [''a'', ''b'']), Number (Finite 1)), ((Fresh 3, [''a'', ''c'']), Null)]"
            "Named ''dataOrField''"]
    by simp
qed


section \<open>The commit protocol: properties\<close>

lemma attach_write_None [simp]: "(op_write (attachPrecondition w) = None) = (op_write w = None)"
  by (simp add: attachPrecondition_def split: option.splits)

lemma attach_transform_None [simp]:
  "(op_transform (attachPrecondition w) = None) = (op_transform w = None)"
  by (simp add: attachPrecondition_def split: option.splits)

lemma hasEntry_attach [simp]: "hasEntry (attachPrecondition w) = hasEntry w"
  by (simp add: hasEntry_def)

lemma sentBoth_attach [simp]: "sentBoth (attachPrecondition w) = sentBoth w"
  by (simp add: sentBoth_def)

lemma length_entries:
  "length (entries w) =
     (if op_write w = None then 0 else 1) + (if op_transform w = None then 0 else 1)"
  by (simp add: entries_def split: option.splits)

lemma length_entries_attach [simp]: "length (entries (attachPrecondition w)) = length (entries w)"
  by (simp add: length_entries)

lemma serializeWrites_Cons:
  "serializeWrites (w # ws) =
     (if hasEntry w
      then (fst (serializeWrites ws), attachPrecondition w # fst (snd (serializeWrites ws)),
            entries (attachPrecondition w) @ snd (snd (serializeWrites ws)))
      else (Some AssertionError, w # ws, []))"
  by (simp add: hasEntry_def Let_def split: prod.splits)

lemma serializeWrites_ok:
  "\<forall>w \<in> set ws. hasEntry w \<Longrightarrow>
   serializeWrites ws =
     (None, map attachPrecondition ws, wireList (map attachPrecondition ws))"
  by (induction ws)
     (simp_all del: serializeWrites.simps(2) add: serializeWrites_Cons wireList_def)

lemma serializeWrites_fst:
  "fst (serializeWrites ws) = (if \<forall>w \<in> set ws. hasEntry w then None else Some AssertionError)"
  by (induction ws) (simp_all del: serializeWrites.simps(2) add: serializeWrites_Cons)

lemma length_wire_attach:
  "length (wireList (map attachPrecondition ws)) = length (wireList ws)"
  by (induction ws) (simp_all add: wireList_def)

lemma wireList_Cons: "wireList (w # ws) = entries w @ wireList ws"
  by (simp add: wireList_def)

lemma demux_Cons_both:
  assumes "sentBoth w" and "i + offset + 1 < length rs"
  shows "demux ct rs i offset (w # ws) =
           (case demux ct rs (i + 1) (offset + 1) ws of
              Inl e \<Rightarrow> Inl e
            | Inr res \<Rightarrow> Inr (WriteResult (reportedTime ct (rs ! (i + offset + 1))) # res))"
  using assms
  by (cases "demux ct rs (Suc i) (Suc offset) ws")
     (auto simp: sentBoth_def Let_def reportedTime_def)

lemma demux_Cons_single:
  assumes "\<not> sentBoth w" and "i + offset < length rs"
  shows "demux ct rs i offset (w # ws) =
           (case demux ct rs (i + 1) offset ws of
              Inl e \<Rightarrow> Inl e
            | Inr res \<Rightarrow> Inr (WriteResult (reportedTime ct (rs ! (i + offset))) # res))"
  using assms
  by (cases "demux ct rs (Suc i) offset ws"; cases "op_write w"; cases "op_transform w")
     (auto simp: sentBoth_def Let_def reportedTime_def)

text \<open>
  The second loop of \<open>commit_\<close> computes the demultiplexing of the specification:
  \<open>i + offset\<close> is the number of results consumed so far.
\<close>

lemma demux_reassemble:
  "\<forall>w \<in> set ws. hasEntry w \<Longrightarrow> i + offset + length (wireList ws) \<le> length rs \<Longrightarrow>
   demux ct rs i offset ws = Inr (reassemble ct ws (drop (i + offset) rs))"
proof (induction ws arbitrary: i offset)
  case Nil
  then show ?case by simp
next
  case (Cons w ws)
  let ?k = "i + offset"
  from Cons.prems have he: "hasEntry w" and rest: "\<forall>w \<in> set ws. hasEntry w" by auto
  show ?case
  proof (cases "sentBoth w")
    case True
    then have len: "length (entries w) = 2" by (simp add: length_entries sentBoth_def)
    with Cons.prems(2) have b: "?k + 2 + length (wireList ws) \<le> length rs"
      by (simp add: wireList_Cons)
    then have d: "drop ?k rs = rs ! ?k # rs ! (?k + 1) # drop (?k + 2) rs"
      by (simp add: Cons_nth_drop_Suc)
    have "(i + 1) + (offset + 1) + length (wireList ws) \<le> length rs"
      using b by simp
    with rest
    have ih: "demux ct rs (i + 1) (offset + 1) ws
                = Inr (reassemble ct ws (drop ((i + 1) + (offset + 1)) rs))"
      by (rule Cons.IH)
    have e: "(i + 1) + (offset + 1) = ?k + 2" by simp
    from b have kb: "?k + 1 < length rs" by simp
    have "demux ct rs i offset (w # ws) =
        Inr (WriteResult (reportedTime ct (rs ! (?k + 1))) #
             reassemble ct ws (drop ((i + 1) + (offset + 1)) rs))"
      unfolding demux_Cons_both [OF True kb] ih by simp
    also have "\<dots> = Inr (reassemble ct (w # ws) (drop ?k rs))"
      unfolding e d using True by simp
    finally show ?thesis .
  next
    case False
    with he have len: "length (entries w) = 1"
      by (auto simp: length_entries sentBoth_def hasEntry_def)
    with Cons.prems(2) have b: "?k + 1 + length (wireList ws) \<le> length rs"
      by (simp add: wireList_Cons)
    then have d: "drop ?k rs = rs ! ?k # drop (?k + 1) rs"
      by (simp add: Cons_nth_drop_Suc)
    have "(i + 1) + offset + length (wireList ws) \<le> length rs"
      using b by simp
    with rest
    have ih: "demux ct rs (i + 1) offset ws = Inr (reassemble ct ws (drop ((i + 1) + offset) rs))"
      by (rule Cons.IH)
    have e: "(i + 1) + offset = ?k + 1" by simp
    from b have kb: "?k < length rs" by simp
    have "demux ct rs i offset (w # ws) =
        Inr (WriteResult (reportedTime ct (rs ! ?k)) #
             reassemble ct ws (drop ((i + 1) + offset) rs))"
      unfolding demux_Cons_single [OF False kb] ih by simp
    also have "\<dots> = Inr (reassemble ct (w # ws) (drop ?k rs))"
      unfolding e d using False by simp
    finally show ?thesis .
  qed
qed

lemma length_reassemble:
  "\<forall>w \<in> set ws. hasEntry w \<Longrightarrow> length (wireList ws) \<le> length rs \<Longrightarrow>
   length (reassemble ct ws rs) = length ws"
proof (induction ws arbitrary: rs)
  case Nil
  then show ?case by simp
next
  case (Cons w ws)
  show ?case
  proof (cases "sentBoth w")
    case True
    then have "length (entries w) = 2" by (simp add: length_entries sentBoth_def)
    with Cons.prems(2) obtain r1 r2 rest where rs: "rs = r1 # r2 # rest"
      by (cases rs; cases "tl rs") (auto simp: wireList_Cons)
    with Cons True \<open>length (entries w) = 2\<close> show ?thesis by (simp add: wireList_Cons)
  next
    case False
    with Cons.prems(1) have "length (entries w) = 1"
      by (auto simp: length_entries sentBoth_def hasEntry_def)
    with Cons.prems(2) obtain r rest where rs: "rs = r # rest"
      by (cases rs) (auto simp: wireList_Cons)
    with Cons False \<open>length (entries w) = 1\<close> show ?thesis by (simp add: wireList_Cons)
  qed
qed

lemma reassemble_attach: "reassemble ct (map attachPrecondition ws) rs = reassemble ct ws rs"
  by (induction ws arbitrary: rs) (simp_all split: list.splits)

lemma commitThen_reassemble:
  assumes "\<forall>w \<in> set ws. hasEntry w" and "writeResults resp = Some rs"
    and "length rs = length (wireList ws)"
  shows "commitThen (map attachPrecondition ws)
           (wireList (map attachPrecondition ws)) resp
           = Inr (reassemble (fromProto (commitTime resp)) ws rs)"
proof (cases "wireList ws = []")
  case True
  have "ws = []"
  proof (cases ws)
    case (Cons w ws')
    with assms(1) have "entries w \<noteq> []"
      by (auto simp: hasEntry_def entries_def split: option.splits)
    with True Cons show ?thesis by (simp add: wireList_Cons)
  qed simp
  then show ?thesis by (simp add: commitThen_def wireList_def)
next
  case False
  let ?ws' = "map attachPrecondition ws"
  have len: "length (wireList ?ws') = length rs"
    using assms(3) by (simp only: length_wire_attach)
  from False assms(3) have pos: "length rs > 0" by simp
  have he: "\<forall>w \<in> set ?ws'. hasEntry w" using assms(1) by simp
  have "0 + 0 + length (wireList ?ws') \<le> length rs" using len by simp
  with he have "demux (fromProto (commitTime resp)) rs 0 0 ?ws'
          = Inr (reassemble (fromProto (commitTime resp)) ?ws' (drop (0 + 0) rs))"
    by (rule demux_reassemble)
  then have "demux (fromProto (commitTime resp)) rs 0 0 ?ws'
          = Inr (reassemble (fromProto (commitTime resp)) ws rs)"
    by (simp only: reassemble_attach add_0 drop_0)
  with pos assms(2) len show ?thesis
    unfolding commitThen_def by simp
qed

lemma sendCommit_ok:
  assumes "\<forall>w \<in> set (writes b). hasEntry w"
  shows "sendCommit fs cr b t =
           ([CommitRpc (databaseName fs)
               (wireList (map attachPrecondition (writes b))) t],
            (case cr of
               Inl e \<Rightarrow> Inl e
             | Inr resp \<Rightarrow>
                 commitThen (map attachPrecondition (writes b))
                   (wireList (map attachPrecondition (writes b))) resp),
            b\<lparr>writes := map attachPrecondition (writes b), committed := True\<rparr>)"
  unfolding sendCommit_def serializeWrites_ok [OF assms] by (cases cr) simp_all

lemma sendCommit_fail:
  assumes "\<not> (\<forall>w \<in> set (writes b). hasEntry w)"
  shows "sendCommit fs cr b t =
           ([], Inl AssertionError, b\<lparr>writes := fst (snd (serializeWrites (writes b)))\<rparr>)"
proof -
  from assms have "fst (serializeWrites (writes b)) = Some AssertionError"
    by (simp only: serializeWrites_fst if_False)
  then show ?thesis
    by (cases "serializeWrites (writes b)") (simp add: sendCommit_def)
qed

lemma commit'_unfold:
  "commit' fs now br cr b t =
     (if t = None \<and> shouldCreateTransaction fs now then
        (case br of
           Inl e \<Rightarrow> ([BeginTransactionRpc (databaseName fs)], Inl e, b)
         | Inr tid \<Rightarrow>
             (case sendCommit fs cr b (Some tid) of
                (calls, r, b') \<Rightarrow> (BeginTransactionRpc (databaseName fs) # calls, r, b')))
      else sendCommit fs cr b t)"
proof -
  have h: "commit' fs now br' cr b (Some tid) = sendCommit fs cr b (Some tid)" for tid br'
    by (subst commit'.simps) simp
  show ?thesis
  proof (cases br)
    case (Inl e)
    then show ?thesis by (subst commit'.simps) simp
  next
    case (Inr tid)
    then show ?thesis by (subst commit'.simps) (simp add: h)
  qed
qed

lemma sendCommit_issued:
  assumes "sendCommit fs cr b t = (calls, r, b')"
    and "CommitRpc db requestWrites tid \<in> set calls"
  shows "(\<forall>w \<in> set (writes b). hasEntry w)
         \<and> requestWrites = wireList (map attachPrecondition (writes b))
         \<and> r = (case cr of
                  Inl e \<Rightarrow> Inl e
                | Inr resp \<Rightarrow> commitThen (map attachPrecondition (writes b)) requestWrites resp)
         \<and> b' = b\<lparr>writes := map attachPrecondition (writes b), committed := True\<rparr>"
proof (cases "\<forall>w \<in> set (writes b). hasEntry w")
  case True
  with assms show ?thesis by (auto simp: sendCommit_ok)
next
  case False
  with assms show ?thesis by (simp add: sendCommit_fail)
qed

lemma commit'_issued:
  assumes "commit' fs now br cr b t = (calls, r, b')"
    and "CommitRpc db requestWrites tid \<in> set calls"
  shows "(\<forall>w \<in> set (writes b). hasEntry w)
         \<and> requestWrites = wireList (map attachPrecondition (writes b))
         \<and> r = (case cr of
                  Inl e \<Rightarrow> Inl e
                | Inr resp \<Rightarrow> commitThen (map attachPrecondition (writes b)) requestWrites resp)
         \<and> b' = b\<lparr>writes := map attachPrecondition (writes b), committed := True\<rparr>"
proof (cases "t = None \<and> shouldCreateTransaction fs now")
  case False
  with assms have "sendCommit fs cr b t = (calls, r, b')"
    by (simp add: commit'_unfold)
  from sendCommit_issued [OF this assms(2)] show ?thesis .
next
  case True
  show ?thesis
  proof (cases br)
    case (Inl e)
    with True assms show ?thesis by (auto simp: commit'_unfold)
  next
    case (Inr t')
    obtain calls' r' b'' where s: "sendCommit fs cr b (Some t') = (calls', r', b'')"
      by (cases "sendCommit fs cr b (Some t')") auto
    with True Inr assms have "calls = BeginTransactionRpc (databaseName fs) # calls'"
      and "r = r'" and "b' = b''"
      by (auto simp: commit'_unfold)
    with assms(2) s have "sendCommit fs cr b (Some t') = (calls', r, b')"
      and "CommitRpc db requestWrites tid \<in> set calls'" by auto
    from sendCommit_issued [OF this] show ?thesis .
  qed
qed

text \<open>
  Claim C1. When the commit call of a batch was issued and succeeded with one result per
  wire entry sent, \<open>commit\<close> returns the demultiplexing of the specification: one
  WriteResult per operation appended, in append order; for an operation that sent a
  write and a transform the time of the transform's result, the later of the two, for a
  single-entry operation the time of that entry's result, and the commit time of the
  batch where the server reported no update time. The wire list sent holds, for each
  operation in order, its write and then its transform.
\<close>

theorem commit_write_results:
  assumes "commit fs now beginReply commitReply b = (calls, r, b')"
    and "CommitRpc db requestWrites tid \<in> set calls"
    and "commitReply = Inr resp"
    and "writeResults resp = Some rs"
    and "length rs = length requestWrites"
  shows "r = Inr (reassemble (fromProto (commitTime resp)) (writes b) rs)
         \<and> length (reassemble (fromProto (commitTime resp)) (writes b) rs) = length (writes b)
         \<and> requestWrites = wireList (writes b')
         \<and> map sentBoth (writes b') = map sentBoth (writes b)"
proof -
  from assms(1) have c: "commit' fs now beginReply commitReply b None = (calls, r, b')"
    by (simp add: commit_def)
  from commit'_issued [OF c assms(2)]
  have he: "\<forall>w \<in> set (writes b). hasEntry w"
    and wire: "requestWrites = wireList (map attachPrecondition (writes b))"
    and r: "r = (case commitReply of
                   Inl e \<Rightarrow> Inl e
                 | Inr resp \<Rightarrow>
                     commitThen (map attachPrecondition (writes b)) requestWrites resp)"
    and b': "b' = b\<lparr>writes := map attachPrecondition (writes b), committed := True\<rparr>"
    by auto
  from assms(5) wire have len: "length rs = length (wireList (writes b))"
    by (simp only: length_wire_attach)
  from r assms(3) wire commitThen_reassemble [OF he assms(4) len]
  have "r = Inr (reassemble (fromProto (commitTime resp)) (writes b) rs)" by simp
  moreover from he len
  have "length (reassemble (fromProto (commitTime resp)) (writes b) rs) = length (writes b)"
    by (intro length_reassemble) simp_all
  moreover from wire b' have "requestWrites = wireList (writes b')" by simp
  moreover from b' have "map sentBoth (writes b') = map sentBoth (writes b)" by simp
  ultimately show ?thesis by blast
qed

theorem commit_write_results_witness:
  "fst (snd (commit exampleFirestore 1010000 (Inr []) (Inr exampleResponse) exampleBatch))
     = Inr [WriteResult (Timestamp 2 0), WriteResult (Timestamp 9 0)]
   \<and> length (writes exampleBatch) = 2
   \<and> length (wireList (writes exampleBatch)) = 3"
proof -
  let ?c = "commit exampleFirestore 1010000 (Inr []) (Inr exampleResponse) exampleBatch"
  let ?rs = "[Some \<lparr>seconds = 1, nanos = 0\<rparr>, Some \<lparr>seconds = 2, nanos = 0\<rparr>, None]"
  let ?wire = "wireList (map attachPrecondition (writes exampleBatch))"
  have c: "?c = (fst ?c, fst (snd ?c), snd (snd ?c))" by simp
  have issued: "CommitRpc ''projects/p/databases/d'' ?wire None \<in> set (fst ?c)"
    by code_simp
  have rs: "writeResults exampleResponse = Some ?rs"
    by (simp add: exampleResponse_def)
  have len: "length ?rs = length ?wire" by code_simp
  have ev: "reassemble (fromProto (commitTime exampleResponse)) (writes exampleBatch) ?rs
              = [WriteResult (Timestamp 2 0), WriteResult (Timestamp 9 0)]"
    by code_simp
  have l2: "length (writes exampleBatch) = 2" by code_simp
  have l3: "length (wireList (writes exampleBatch)) = 3" by code_simp
  from commit_write_results [OF c issued refl rs len] ev l2 l3
  show ?thesis by simp
qed

lemma sendCommit_empty:
  assumes "writes b = []"
  shows "sendCommit fs cr b t =
           ([CommitRpc (databaseName fs) [] t],
            (case cr of Inl e \<Rightarrow> Inl e | Inr resp \<Rightarrow> Inr []),
            b\<lparr>committed := True\<rparr>)"
proof -
  have b: "b\<lparr>writes := [], committed := True\<rparr> = b\<lparr>committed := True\<rparr>"
    using assms by simp
  show ?thesis
    using assms b by (cases cr) (simp_all add: sendCommit_def commitThen_def)
qed

text \<open>
  Claim C8. Committing a batch with no operation still issues a commit call, with an
  empty writes array (after the \<open>beginTransaction\<close> call when the idle heuristic
  asks for one and that call succeeds), and whatever the response to the commit call
  holds, its \<open>writeResults\<close> included, the result is the empty list.
\<close>

theorem commit_empty_batch:
  assumes "isEmpty b"
  shows "(\<not> shouldCreateTransaction fs now \<longrightarrow>
            commit fs now br cr b =
              ([CommitRpc (databaseName fs) [] None],
               (case cr of Inl e \<Rightarrow> Inl e | Inr resp \<Rightarrow> Inr []),
               b\<lparr>committed := True\<rparr>))
         \<and> (shouldCreateTransaction fs now \<and> br = Inr t \<longrightarrow>
              commit fs now br cr b =
                ([BeginTransactionRpc (databaseName fs), CommitRpc (databaseName fs) [] (Some t)],
                 (case cr of Inl e \<Rightarrow> Inl e | Inr resp \<Rightarrow> Inr []),
                 b\<lparr>committed := True\<rparr>))
         \<and> (\<forall>db ws tid. CommitRpc db ws tid \<in> set (fst (commit fs now br cr b)) \<longrightarrow> ws = [])"
proof -
  from assms have w: "writes b = []" by (simp add: isEmpty_def)
  show ?thesis
    by (cases br) (auto simp: commit_def commit'_unfold sendCommit_empty [OF w])
qed

theorem commit_empty_batch_witness:
  "isEmpty newBatch
   \<and> commit exampleFirestore 1010000 (Inr [7]) (Inr exampleResponse) newBatch
       = ([CommitRpc (databaseName exampleFirestore) [] None], Inr [],
          newBatch\<lparr>committed := True\<rparr>)
   \<and> commit exampleFirestore 2000000 (Inr [7]) (Inr exampleResponse) newBatch
       = ([BeginTransactionRpc (databaseName exampleFirestore),
           CommitRpc (databaseName exampleFirestore) [] (Some [7])], Inr [],
          newBatch\<lparr>committed := True\<rparr>)"
proof -
  have e: "isEmpty newBatch" by (simp add: isEmpty_def newBatch_def)
  have s1: "\<not> shouldCreateTransaction exampleFirestore 1010000"
    by (simp add: shouldCreateTransaction_def exampleFirestore_def GCF_IDLE_TIMEOUT_MS_def)
  have s2: "shouldCreateTransaction exampleFirestore 2000000"
    by (simp add: shouldCreateTransaction_def exampleFirestore_def GCF_IDLE_TIMEOUT_MS_def)
  from s1
    commit_empty_batch [OF e, where fs = exampleFirestore and now = 1010000
                          and br = "Inr [7]" and cr = "Inr exampleResponse" and t = "[7]"]
  have a1: "commit exampleFirestore 1010000 (Inr [7]) (Inr exampleResponse) newBatch
       = ([CommitRpc (databaseName exampleFirestore) [] None], Inr [],
          newBatch\<lparr>committed := True\<rparr>)"
    by simp
  from s2
    commit_empty_batch [OF e, where fs = exampleFirestore and now = 2000000
                          and br = "Inr [7]" and cr = "Inr exampleResponse" and t = "[7]"]
  have a2: "commit exampleFirestore 2000000 (Inr [7]) (Inr exampleResponse) newBatch
       = ([BeginTransactionRpc (databaseName exampleFirestore),
           CommitRpc (databaseName exampleFirestore) [] (Some [7])], Inr [],
          newBatch\<lparr>committed := True\<rparr>)"
    by simp
  from e a1 a2 show ?thesis by blast
qed

lemma shouldCreateTransaction_idle:
  assumes "lastSuccessfulRequest fs \<noteq> Some 0 \<or> 110000 < now"
  shows "shouldCreateTransaction fs now = idleLongEnough fs now"
  using assms
  by (cases "lastSuccessfulRequest fs")
     (auto simp: shouldCreateTransaction_def idleLongEnough_def GCF_IDLE_TIMEOUT_MS_def)

lemma sendCommit_no_begin: "BeginTransactionRpc db \<notin> set (fst (sendCommit fs cr b t))"
  by (cases "\<forall>w \<in> set (writes b). hasEntry w") (simp_all add: sendCommit_ok sendCommit_fail)

lemma sendCommit_not_begin_first: "fst (sendCommit fs cr b t) \<noteq> BeginTransactionRpc db # rest"
  by (cases "\<forall>w \<in> set (writes b). hasEntry w") (simp_all add: sendCommit_ok sendCommit_fail)

text \<open>
  Claim C3. For a \<open>commit()\<close> without explicit transaction id, the first call issued
  is \<open>beginTransaction\<close> if and only if transaction preference is enabled and either
  no time of a last successful request exists or the time elapsed since exceeds 110000
  milliseconds; the commit call then follows with the transaction id obtained.
  Otherwise no \<open>beginTransaction\<close> is issued and the commit call goes out directly,
  without transaction id. The code takes a recorded time of 0 for no time, which agrees
  with the claim as soon as the clock reads more than 110000.
\<close>

theorem commit_begins_transaction_when_idle:
  assumes "lastSuccessfulRequest fs \<noteq> Some 0 \<or> 110000 < now"
  shows "((\<exists>rest. fst (commit fs now br cr b) = BeginTransactionRpc (databaseName fs) # rest)
            \<longleftrightarrow> idleLongEnough fs now)
         \<and> (\<not> idleLongEnough fs now \<longrightarrow>
              (\<forall>db. BeginTransactionRpc db \<notin> set (fst (commit fs now br cr b))))
         \<and> (\<not> idleLongEnough fs now \<and> (\<forall>w \<in> set (writes b). hasEntry w) \<longrightarrow>
              fst (commit fs now br cr b) =
                [CommitRpc (databaseName fs) (wireList (map attachPrecondition (writes b))) None])
         \<and> (idleLongEnough fs now \<and> br = Inr t \<and> (\<forall>w \<in> set (writes b). hasEntry w) \<longrightarrow>
              fst (commit fs now br cr b) =
                [BeginTransactionRpc (databaseName fs),
                 CommitRpc (databaseName fs) (wireList (map attachPrecondition (writes b)))
                   (Some t)])"
proof (cases "idleLongEnough fs now")
  case True
  then have s: "shouldCreateTransaction fs now"
    by (simp add: shouldCreateTransaction_idle [OF assms])
  show ?thesis
  proof (cases br)
    case (Inl e)
    with True s show ?thesis by (simp add: commit_def commit'_unfold)
  next
    case (Inr t')
    have c: "fst (commit fs now br cr b)
               = BeginTransactionRpc (databaseName fs) # fst (sendCommit fs cr b (Some t'))"
      using s Inr
      by (cases "sendCommit fs cr b (Some t')") (simp add: commit_def commit'_unfold)
    from True Inr show ?thesis
      unfolding c by (simp add: sendCommit_ok)
  qed
next
  case False
  then have s: "\<not> shouldCreateTransaction fs now"
    by (simp add: shouldCreateTransaction_idle [OF assms])
  then have c: "commit fs now br cr b = sendCommit fs cr b None"
    by (simp add: commit_def commit'_unfold)
  from False show ?thesis
    unfolding c
    by (simp add: sendCommit_no_begin sendCommit_not_begin_first sendCommit_ok)
qed

theorem commit_begins_transaction_when_idle_witness:
  "idleLongEnough exampleFirestore 1111000
   \<and> fst (commit exampleFirestore 1111000 (Inr [7]) (Inr exampleResponse) exampleBatch)
       = [BeginTransactionRpc (databaseName exampleFirestore),
          CommitRpc (databaseName exampleFirestore)
            (wireList (map attachPrecondition (writes exampleBatch))) (Some [7])]
   \<and> \<not> idleLongEnough exampleFirestore 1010000
   \<and> fst (commit exampleFirestore 1010000 (Inr [7]) (Inr exampleResponse) exampleBatch)
       = [CommitRpc (databaseName exampleFirestore)
            (wireList (map attachPrecondition (writes exampleBatch))) None]"
proof -
  have h: "lastSuccessfulRequest exampleFirestore \<noteq> Some 0 \<or> (110000::int) < n" for n
    by (simp add: exampleFirestore_def)
  have i1: "idleLongEnough exampleFirestore 1111000"
    by (simp add: idleLongEnough_def exampleFirestore_def)
  have i2: "\<not> idleLongEnough exampleFirestore 1010000"
    by (simp add: idleLongEnough_def exampleFirestore_def)
  have he: "\<forall>w \<in> set (writes exampleBatch). hasEntry w"
    by code_simp
  from i1 he
    commit_begins_transaction_when_idle
      [OF h, where now = 1111000 and br = "Inr [7]" and cr = "Inr exampleResponse"
                 and b = exampleBatch and t = "[7]"]
  have a1: "fst (commit exampleFirestore 1111000 (Inr [7]) (Inr exampleResponse) exampleBatch)
       = [BeginTransactionRpc (databaseName exampleFirestore),
          CommitRpc (databaseName exampleFirestore)
            (wireList (map attachPrecondition (writes exampleBatch))) (Some [7])]"
    by blast
  from i2 he
    commit_begins_transaction_when_idle
      [OF h, where now = 1010000 and br = "Inr [7]" and cr = "Inr exampleResponse"
                 and b = exampleBatch and t = "[7]"]
  have a2: "fst (commit exampleFirestore 1010000 (Inr [7]) (Inr exampleResponse) exampleBatch)
       = [CommitRpc (databaseName exampleFirestore)
            (wireList (map attachPrecondition (writes exampleBatch))) None]"
    by blast
  from i1 i2 a1 a2 show ?thesis by blast
qed

section \<open>The append operations: properties\<close>

lemma finish_error: "fst (finish b r) = Some e \<Longrightarrow> snd (finish b r) = b"
  by (cases r) (simp_all add: finish_def)

lemma finish_success:
  "fst (finish b r) = None \<Longrightarrow> \<exists>w. r = Inr w \<and> snd (finish b r) = b\<lparr>writes := writes b @ [w]\<rparr>"
  by (cases r) (simp_all add: finish_def push_def)

lemma finish_Inl: "finish b (Inl e) = (Some e, b)"
  by (simp add: finish_def)

lemma finish_committed: "committed (snd (finish b r)) = committed b"
  by (cases r) (simp_all add: finish_def push_def)

lemma exists_false_precondition:
  "preconditionToProto (newPrecondition (Object ''Object'' [(''exists'', Boolean False)]))
     = Some (ExistsP False)"
  by (simp add: newPrecondition_def propOf_def)

lemma transformToProto_None: "(transformToProto t = None) = transformIsEmpty t"
  by (simp add: transformToProto_def)

lemma create_op_result:
  assumes "create_op E b documentRef data = Inr w"
  shows "\<exists>document transform.
           snapshotFromObject E documentRef data = Inr document
           \<and> transformFromObject E documentRef data = Inr transform
           \<and> w = \<lparr>op_write =
                    (if \<not> snapshotIsEmpty document \<or> transformIsEmpty transform
                     then Some (snapshotToProto document) else None),
                  op_transform = transformToProto transform,
                  op_precondition = Some (ExistsP False)\<rparr>"
  using assms
  by (auto simp: create_op_def check_Inr_iff bindE_Inr_iff Let_def exists_false_precondition)

text \<open>
  Claim C2, as amended. A \<open>create\<close> that passes validation queues exactly one
  operation, with the precondition \<open>exists: false\<close>; the operation has a transform
  entry exactly when the data holds transform sentinels, and a write entry exactly when
  the document has plain data or there is no transform. When the data consists of
  transform sentinels only, the transform entry is queued alone. At least one of the two
  entries is always present.
\<close>

theorem create_queues_write_or_transform:
  assumes "create E b documentRef data = (None, b')"
  shows "\<exists>document transform w.
           snapshotFromObject E documentRef data = Inr document
           \<and> transformFromObject E documentRef data = Inr transform
           \<and> b' = b\<lparr>writes := writes b @ [w]\<rparr>
           \<and> op_precondition w = Some (ExistsP False)
           \<and> (op_transform w \<noteq> None \<longleftrightarrow> \<not> transformIsEmpty transform)
           \<and> (op_write w \<noteq> None \<longleftrightarrow> \<not> snapshotIsEmpty document \<or> transformIsEmpty transform)
           \<and> hasEntry w"
proof -
  from assms have "fst (finish b (create_op E b documentRef data)) = None"
    and b': "b' = snd (finish b (create_op E b documentRef data))"
    by (simp_all add: create_def)
  from finish_success [OF this(1)] b' obtain w where
    w: "create_op E b documentRef data = Inr w" and bw: "b' = b\<lparr>writes := writes b @ [w]\<rparr>"
    by auto
  from create_op_result [OF w] obtain document transform where
    d: "snapshotFromObject E documentRef data = Inr document" and
    t: "transformFromObject E documentRef data = Inr transform" and
    weq: "w = \<lparr>op_write =
                 (if \<not> snapshotIsEmpty document \<or> transformIsEmpty transform
                  then Some (snapshotToProto document) else None),
               op_transform = transformToProto transform,
               op_precondition = Some (ExistsP False)\<rparr>"
    by auto
  from weq have p: "op_precondition w = Some (ExistsP False)" by simp
  from weq have tr: "op_transform w \<noteq> None \<longleftrightarrow> \<not> transformIsEmpty transform"
    by (simp add: transformToProto_None)
  from weq
  have wr: "op_write w \<noteq> None \<longleftrightarrow> \<not> snapshotIsEmpty document \<or> transformIsEmpty transform"
    by simp
  from tr wr have he: "hasEntry w" by (auto simp: hasEntry_def)
  from d t bw p tr wr he show ?thesis by blast
qed

theorem create_queues_write_or_transform_witness:
  "create specExt newBatch exampleRef
     (Object ''Object''
        [(''foo'', String ''bar''), (''t'', FieldValueV ''ServerTimestampTransform'')])
     = (None,
        snd (create specExt newBatch exampleRef
               (Object ''Object''
                  [(''foo'', String ''bar''),
                   (''t'', FieldValueV ''ServerTimestampTransform'')])))
   \<and> length (writes (snd (create specExt newBatch exampleRef
               (Object ''Object''
                  [(''foo'', String ''bar''),
                   (''t'', FieldValueV ''ServerTimestampTransform'')])))) = 1"
proof -
  let ?data = "Object ''Object''
                 [(''foo'', String ''bar''), (''t'', FieldValueV ''ServerTimestampTransform'')]"
  let ?c = "create specExt newBatch exampleRef ?data"
  have "fst ?c = None" by code_simp
  then have c: "?c = (None, snd ?c)" by (cases ?c) simp
  have n: "writes newBatch = []" by (simp add: newBatch_def)
  from create_queues_write_or_transform [OF c] n
  have "length (writes (snd ?c)) = 1" by auto
  with c show ?thesis by simp
qed

text \<open>
  Claim C2 as stated fails: a \<open>create\<close> whose data is one server timestamp sentinel
  passes validation and queues an operation without write entry; the precondition
  \<open>exists: false\<close> travels with the transform entry.
\<close>

theorem create_transform_only_has_no_write:
  "fst (create specExt newBatch exampleRef
          (Object ''Object'' [(''t'', FieldValueV ''ServerTimestampTransform'')])) = None
   \<and> length (writes (snd (create specExt newBatch exampleRef
          (Object ''Object'' [(''t'', FieldValueV ''ServerTimestampTransform'')])))) = 1
   \<and> op_write (hd (writes (snd (create specExt newBatch exampleRef
          (Object ''Object'' [(''t'', FieldValueV ''ServerTimestampTransform'')])))))
       = None
   \<and> op_transform (hd (writes (snd (create specExt newBatch exampleRef
          (Object ''Object'' [(''t'', FieldValueV ''ServerTimestampTransform'')])))))
       = Some (emptyWrite\<lparr>w_transform :=
                 Some \<lparr>dt_ref = ''col/doc'',
                       dt_transforms = [([''t''], ''ServerTimestampTransform'')]\<rparr>\<rparr>)
   \<and> op_precondition (hd (writes (snd (create specExt newBatch exampleRef
          (Object ''Object'' [(''t'', FieldValueV ''ServerTimestampTransform'')])))))
       = Some (ExistsP False)"
  by code_simp

text \<open>
  Claim C7. When an append operation raises, the batch is what it was before the call:
  no entry has been added to the write list and the \<open>committed\<close> flag is untouched.
  When it returns, exactly one operation, built after all validation has passed, has been
  added at the end, and the flag is untouched.
\<close>

theorem append_error_leaves_batch_unchanged:
  "(fst (create E b documentRef data) = Some e \<longrightarrow> snd (create E b documentRef data) = b)
   \<and> (fst (delete E b documentRef precondition) = Some e \<longrightarrow>
        snd (delete E b documentRef precondition) = b)
   \<and> (fst (set' E b documentRef data options) = Some e \<longrightarrow>
        snd (set' E b documentRef data options) = b)
   \<and> (fst (update E b args) = Some e \<longrightarrow> snd (update E b args) = b)
   \<and> (fst (create E b documentRef data) = None \<longrightarrow>
        (\<exists>w. create_op E b documentRef data = Inr w \<and>
             snd (create E b documentRef data) = b\<lparr>writes := writes b @ [w]\<rparr>))
   \<and> (fst (delete E b documentRef precondition) = None \<longrightarrow>
        (\<exists>w. delete_op E b documentRef precondition = Inr w \<and>
             snd (delete E b documentRef precondition) = b\<lparr>writes := writes b @ [w]\<rparr>))
   \<and> (fst (set' E b documentRef data options) = None \<longrightarrow>
        (\<exists>w. set_op E b documentRef data options = Inr w \<and>
             snd (set' E b documentRef data options) = b\<lparr>writes := writes b @ [w]\<rparr>))
   \<and> (fst (update E b args) = None \<longrightarrow>
        (\<exists>w. update_op E b args = Inr w \<and>
             snd (update E b args) = b\<lparr>writes := writes b @ [w]\<rparr>))"
  unfolding create_def delete_def set'_def update_def
  using finish_error finish_success by blast

theorem append_error_leaves_batch_unchanged_witness:
  "fst (update specExt exampleBatch
          [exampleRef, String ''a.b'', Number (Finite 1), String ''a'', Number (Finite 2)])
     = Some (SpecifiedMultipleTimes (Named ''dataOrField'') [''a''])
   \<and> snd (update specExt exampleBatch
          [exampleRef, String ''a.b'', Number (Finite 1), String ''a'', Number (Finite 2)])
     = exampleBatch
   \<and> fst (create specExt exampleBatch exampleRef (String ''x''))
     = Some (CustomObjectError (NotPlainObject (Named ''data'') None))
   \<and> snd (create specExt exampleBatch exampleRef (String ''x'')) = exampleBatch"
proof -
  let ?args = "[exampleRef, String ''a.b'', Number (Finite 1), String ''a'', Number (Finite 2)]"
  have u: "fst (update specExt exampleBatch ?args)
             = Some (SpecifiedMultipleTimes (Named ''dataOrField'') [''a''])"
    by code_simp
  have c: "fst (create specExt exampleBatch exampleRef (String ''x''))
             = Some (CustomObjectError (NotPlainObject (Named ''data'') None))"
    by code_simp
  from u c
    append_error_leaves_batch_unchanged
      [where E = specExt and b = exampleBatch and args = ?args
         and e = "SpecifiedMultipleTimes (Named ''dataOrField'') [''a'']"]
    append_error_leaves_batch_unchanged
      [where E = specExt and b = exampleBatch and documentRef = exampleRef
         and data = "String ''x''"
         and e = "CustomObjectError (NotPlainObject (Named ''data'') None)"]
  show ?thesis by blast
qed

section \<open>The committed flag\<close>

lemma create_op_committed:
  assumes "committed b" and "create_op E (b\<lparr>committed := False\<rparr>) documentRef data = Inr w"
  shows "create_op E b documentRef data
           = Inl (PlainError ''Cannot modify a WriteBatch that has been committed.'')"
proof -
  from assms(2) have "validateDocumentReference E (Named ''documentRef'') documentRef = None"
    and "validateDocumentData E (Named ''data'') data False = None"
    by (simp_all add: create_op_def check_Inr_iff)
  with assms(1) show ?thesis
    by (simp add: create_op_def check_def verifyNotCommitted_def)
qed

lemma delete_op_committed:
  assumes "committed b" and "delete_op E (b\<lparr>committed := False\<rparr>) documentRef precondition = Inr w"
  shows "delete_op E b documentRef precondition
           = Inl (PlainError ''Cannot modify a WriteBatch that has been committed.'')"
proof -
  from assms(2) have "validateDocumentReference E (Named ''documentRef'') documentRef = None"
    and "validateDeletePrecondition (Named ''precondition'') precondition = None"
    by (simp_all add: delete_op_def check_Inr_iff)
  with assms(1) show ?thesis
    by (simp add: delete_op_def check_def verifyNotCommitted_def)
qed

lemma set_op_committed:
  assumes "committed b" and "set_op E (b\<lparr>committed := False\<rparr>) documentRef data options = Inr w"
  shows "set_op E b documentRef data options
           = Inl (PlainError ''Cannot modify a WriteBatch that has been committed.'')"
proof -
  let ?allowDeletes =
    "(truthy options \<and> truthy (propOf options ''mergeFields'')) \<or>
     (truthy options \<and> propOf options ''merge'' = Boolean True)"
  from assms(2) have "validateSetOptions E (Named ''options'') options = None"
    and "validateDocumentReference E (Named ''documentRef'') documentRef = None"
    and "validateDocumentData E (Named ''data'') data ?allowDeletes = None"
    by (simp_all add: set_op_def check_Inr_iff Let_def)
  with assms(1) show ?thesis
    by (simp add: set_op_def check_def verifyNotCommitted_def Let_def)
qed

lemma update_op_committed:
  assumes "committed b" and "update_op E (b\<lparr>committed := False\<rparr>) args = Inr w"
  shows "update_op E b args
           = Inl (PlainError ''Cannot modify a WriteBatch that has been committed.'')"
proof -
  from assms(2) have "validateMinNumberOfArguments ''update'' (length args) 2 = None"
    and "validateDocumentReference E (Named ''documentRef'') (nthArg args 0) = None"
    by (simp_all add: update_op_def check_Inr_iff Let_def)
  with assms(1) show ?thesis
    by (simp add: update_op_def check_def verifyNotCommitted_def Let_def)
qed

lemma sendCommit_fst:
  "fst (sendCommit fs cr b t) =
     (if \<forall>w \<in> set (writes b). hasEntry w
      then [CommitRpc (databaseName fs) (wireList (map attachPrecondition (writes b))) t]
      else [])"
  by (simp add: sendCommit_ok sendCommit_fail)

lemma sendCommit_result:
  "fst (snd (sendCommit fs cr b t)) =
     (if \<forall>w \<in> set (writes b). hasEntry w
      then (case cr of
              Inl e \<Rightarrow> Inl e
            | Inr resp \<Rightarrow>
                commitThen (map attachPrecondition (writes b))
                  (wireList (map attachPrecondition (writes b))) resp)
      else Inl AssertionError)"
  by (simp add: sendCommit_ok sendCommit_fail)

lemma sendCommit_batch:
  "snd (snd (sendCommit fs cr b t)) =
     (if \<forall>w \<in> set (writes b). hasEntry w
      then b\<lparr>writes := map attachPrecondition (writes b), committed := True\<rparr>
      else b\<lparr>writes := fst (snd (serializeWrites (writes b)))\<rparr>)"
  by (simp add: sendCommit_ok sendCommit_fail)

lemma commit'_fst:
  "fst (commit' fs now br cr b t) =
     (if t = None \<and> shouldCreateTransaction fs now
      then (case br of
              Inl e \<Rightarrow> [BeginTransactionRpc (databaseName fs)]
            | Inr tid \<Rightarrow>
                BeginTransactionRpc (databaseName fs) # fst (sendCommit fs cr b (Some tid)))
      else fst (sendCommit fs cr b t))"
  by (simp add: commit'_unfold case_prod_beta split: sum.splits)

lemma commit'_result:
  "fst (snd (commit' fs now br cr b t)) =
     (if t = None \<and> shouldCreateTransaction fs now
      then (case br of
              Inl e \<Rightarrow> Inl e
            | Inr tid \<Rightarrow> fst (snd (sendCommit fs cr b (Some tid))))
      else fst (snd (sendCommit fs cr b t)))"
  by (simp add: commit'_unfold case_prod_beta split: sum.splits)

lemma commit'_batch:
  "snd (snd (commit' fs now br cr b t)) =
     (if t = None \<and> shouldCreateTransaction fs now
      then (case br of
              Inl e \<Rightarrow> b
            | Inr tid \<Rightarrow> snd (snd (sendCommit fs cr b (Some tid))))
      else snd (snd (sendCommit fs cr b t)))"
  by (simp add: commit'_unfold case_prod_beta split: sum.splits)

lemma commit'_sets_committed:
  "committed (snd (snd (commit' fs now br cr b t))) \<longleftrightarrow>
     committed b \<or> (\<exists>db ws tid. CommitRpc db ws tid \<in> set (fst (commit' fs now br cr b t)))"
  by (cases br) (auto simp: commit'_fst commit'_batch sendCommit_fst sendCommit_batch)

lemma commit'_flag_ignores_reply:
  "fst (commit' fs now br cr b t) = fst (commit' fs now br cr2 b t)
   \<and> snd (snd (commit' fs now br cr b t)) = snd (snd (commit' fs now br cr2 b t))"
  by (cases br) (simp_all add: commit'_fst commit'_batch sendCommit_fst sendCommit_batch)

lemma sendCommit_no_committed_check:
  "fst (sendCommit fs cr (b\<lparr>committed := True\<rparr>) t) = fst (sendCommit fs cr b t)
   \<and> fst (snd (sendCommit fs cr (b\<lparr>committed := True\<rparr>) t))
       = fst (snd (sendCommit fs cr b t))"
  by (cases "serializeWrites (writes b)"; cases "fst (serializeWrites (writes b))")
     (simp_all add: sendCommit_def)

lemma commit'_no_committed_check:
  "fst (commit' fs now br cr (b\<lparr>committed := True\<rparr>) t) = fst (commit' fs now br cr b t)
   \<and> fst (snd (commit' fs now br cr (b\<lparr>committed := True\<rparr>) t))
       = fst (snd (commit' fs now br cr b t))"
  by (cases br) (simp_all add: commit'_fst commit'_result sendCommit_no_committed_check)

text \<open>
  Claim C4. The \<open>committed\<close> flag is never reset: the append operations leave it as
  it is, and after \<open>commit_\<close> it is true exactly when it was true before or the
  commit call was issued, whatever the transport answers to that call. Once it is true,
  every append operation whose arguments an open batch would accept fails with the error
  that a committed batch cannot be modified, and leaves the batch unchanged.
  \<open>commit_\<close> never reads the flag: on a committed batch it issues the same calls with
  the same outcome.
\<close>

theorem committed_flag_protocol:
  "(committed b \<and> fst (create E (b\<lparr>committed := False\<rparr>) documentRef data) = None \<longrightarrow>
      create E b documentRef data
        = (Some (PlainError ''Cannot modify a WriteBatch that has been committed.''), b))
   \<and> (committed b \<and> fst (delete E (b\<lparr>committed := False\<rparr>) documentRef precondition) = None \<longrightarrow>
        delete E b documentRef precondition
          = (Some (PlainError ''Cannot modify a WriteBatch that has been committed.''), b))
   \<and> (committed b \<and> fst (set' E (b\<lparr>committed := False\<rparr>) documentRef data options) = None \<longrightarrow>
        set' E b documentRef data options
          = (Some (PlainError ''Cannot modify a WriteBatch that has been committed.''), b))
   \<and> (committed b \<and> fst (update E (b\<lparr>committed := False\<rparr>) args) = None \<longrightarrow>
        update E b args
          = (Some (PlainError ''Cannot modify a WriteBatch that has been committed.''), b))
   \<and> committed (snd (create E b documentRef data)) = committed b
   \<and> committed (snd (delete E b documentRef precondition)) = committed b
   \<and> committed (snd (set' E b documentRef data options)) = committed b
   \<and> committed (snd (update E b args)) = committed b
   \<and> (committed (snd (snd (commit' fs now br cr b t))) \<longleftrightarrow>
        committed b \<or>
        (\<exists>db ws tid. CommitRpc db ws tid \<in> set (fst (commit' fs now br cr b t))))
   \<and> fst (commit' fs now br cr b t) = fst (commit' fs now br cr2 b t)
   \<and> snd (snd (commit' fs now br cr b t)) = snd (snd (commit' fs now br cr2 b t))
   \<and> fst (commit' fs now br cr (b\<lparr>committed := True\<rparr>) t) = fst (commit' fs now br cr b t)
   \<and> fst (snd (commit' fs now br cr (b\<lparr>committed := True\<rparr>) t))
       = fst (snd (commit' fs now br cr b t))"
proof -
  let ?err = "PlainError ''Cannot modify a WriteBatch that has been committed.''"
  let ?b0 = "b\<lparr>committed := False\<rparr>"
  have c: "committed b \<and> fst (create E ?b0 documentRef data) = None \<longrightarrow>
      create E b documentRef data = (Some ?err, b)"
  proof
    assume a: "committed b \<and> fst (create E ?b0 documentRef data) = None"
    then have "fst (finish ?b0 (create_op E ?b0 documentRef data)) = None"
      by (simp add: create_def)
    from finish_success [OF this] obtain w where "create_op E ?b0 documentRef data = Inr w"
      by blast
    with a have "create_op E b documentRef data = Inl ?err"
      by (intro create_op_committed) simp_all
    then show "create E b documentRef data = (Some ?err, b)"
      by (simp add: create_def finish_Inl)
  qed
  have d: "committed b \<and> fst (delete E ?b0 documentRef precondition) = None \<longrightarrow>
      delete E b documentRef precondition = (Some ?err, b)"
  proof
    assume a: "committed b \<and> fst (delete E ?b0 documentRef precondition) = None"
    then have "fst (finish ?b0 (delete_op E ?b0 documentRef precondition)) = None"
      by (simp add: delete_def)
    from finish_success [OF this] obtain w where
      "delete_op E ?b0 documentRef precondition = Inr w" by blast
    with a have "delete_op E b documentRef precondition = Inl ?err"
      by (intro delete_op_committed) simp_all
    then show "delete E b documentRef precondition = (Some ?err, b)"
      by (simp add: delete_def finish_Inl)
  qed
  have s: "committed b \<and> fst (set' E ?b0 documentRef data options) = None \<longrightarrow>
      set' E b documentRef data options = (Some ?err, b)"
  proof
    assume a: "committed b \<and> fst (set' E ?b0 documentRef data options) = None"
    then have "fst (finish ?b0 (set_op E ?b0 documentRef data options)) = None"
      by (simp add: set'_def)
    from finish_success [OF this] obtain w where
      "set_op E ?b0 documentRef data options = Inr w" by blast
    with a have "set_op E b documentRef data options = Inl ?err"
      by (intro set_op_committed) simp_all
    then show "set' E b documentRef data options = (Some ?err, b)"
      by (simp add: set'_def finish_Inl)
  qed
  have u: "committed b \<and> fst (update E ?b0 args) = None \<longrightarrow>
      update E b args = (Some ?err, b)"
  proof
    assume a: "committed b \<and> fst (update E ?b0 args) = None"
    then have "fst (finish ?b0 (update_op E ?b0 args)) = None"
      by (simp add: update_def)
    from finish_success [OF this] obtain w where "update_op E ?b0 args = Inr w" by blast
    with a have "update_op E b args = Inl ?err"
      by (intro update_op_committed) simp_all
    then show "update E b args = (Some ?err, b)"
      by (simp add: update_def finish_Inl)
  qed
  have f: "committed (snd (create E b documentRef data)) = committed b"
    "committed (snd (delete E b documentRef precondition)) = committed b"
    "committed (snd (set' E b documentRef data options)) = committed b"
    "committed (snd (update E b args)) = committed b"
    by (simp_all add: create_def delete_def set'_def update_def finish_committed)
  from c d s u f commit'_sets_committed [of fs now br cr b t]
    commit'_flag_ignores_reply [of fs now br cr b t cr2]
    commit'_no_committed_check [of fs now br cr b t]
  show ?thesis by blast
qed

theorem committed_flag_protocol_witness:
  "committed (snd (snd (commit exampleFirestore 1010000 (Inr [7]) (Inl TypeError) exampleBatch)))
   \<and> fst (create specExt (snd (snd (commit exampleFirestore 1010000 (Inr [7]) (Inl TypeError)
                                      exampleBatch)))
            exampleRef (Object ''Object'' [(''foo'', String ''bar'')]))
       = Some (PlainError ''Cannot modify a WriteBatch that has been committed.'')
   \<and> fst (delete specExt (snd (snd (commit exampleFirestore 1010000 (Inr [7]) (Inl TypeError)
                                      exampleBatch)))
            exampleRef Undefined)
       = Some (PlainError ''Cannot modify a WriteBatch that has been committed.'')"
proof -
  let ?b = "snd (snd (commit exampleFirestore 1010000 (Inr [7]) (Inl TypeError) exampleBatch))"
  let ?b' = "snd (snd (commit' exampleFirestore 1010000 (Inr [7]) (Inl TypeError)
                         exampleBatch None))"
  let ?data = "Object ''Object'' [(''foo'', String ''bar'')]"
  have bb: "?b = ?b'" by (simp add: commit_def)
  have issued: "CommitRpc (databaseName exampleFirestore)
                  (wireList (map attachPrecondition (writes exampleBatch))) None
                \<in> set (fst (commit' exampleFirestore 1010000 (Inr [7]) (Inl TypeError)
                               exampleBatch None))"
    by code_simp
  have okc: "fst (create specExt (?b'\<lparr>committed := False\<rparr>) exampleRef ?data) = None"
    by code_simp
  have okd: "fst (delete specExt (?b'\<lparr>committed := False\<rparr>) exampleRef Undefined) = None"
    by code_simp
  from issued
    committed_flag_protocol
      [where b = exampleBatch and fs = exampleFirestore and now = 1010000 and br = "Inr [7]"
         and cr = "Inl TypeError" and t = None]
  have cm: "committed ?b'" by blast
  from cm okc okd
    committed_flag_protocol
      [where b = ?b' and E = specExt and documentRef = exampleRef and data = ?data
         and precondition = Undefined]
  have "fst (create specExt ?b' exampleRef ?data)
          = Some (PlainError ''Cannot modify a WriteBatch that has been committed.'')"
    and "fst (delete specExt ?b' exampleRef Undefined)
          = Some (PlainError ''Cannot modify a WriteBatch that has been committed.'')"
    by simp_all
  with cm bb show ?thesis by simp
qed

end
